theory Spec2Isabelle
  imports Complex_Main "HOL-Library.Sublist"
begin

section \<open>Common data\<close>

text \<open>
  The repository holds three variants of one serverless handler:
  \<^item> \<open>src/unnamed/part_000\<close>: the scraping handler (\<open>enforceRateLimit\<close>,
    \<open>extractCookies\<close>, \<open>establishSession\<close>, \<open>parseResults\<close>, \<open>humanLikeSearch\<close>);
  \<^item> \<open>src/api/mcp-tool.ts\<close>, lines 1-80: the simple handler with one process-wide
    counter (\<open>checkRateLimit()\<close>);
  \<^item> \<open>src/api/mcp-tool.ts\<close>, lines 81-311: the session handler
    (\<open>getInitialCookies\<close>, \<open>performSearchWithSession\<close>, \<open>checkRateLimit(ip)\<close>).

  A JavaScript \<open>Error\<close> is modelled by its message, \<open>Date.now()\<close> by an \<open>int\<close>
  parameter (milliseconds), a \<open>Map\<close> by a partial function, and a function that may
  throw after mutating a store returns the outcome together with the store it leaves.
\<close>

datatype error = Error (message: string)

section \<open>Rate limiting\<close>

record rate_record =
  count :: nat
  reset :: int

type_synonym rate_store = "string \<rightharpoonup> rate_record"

definition MAX_PER_MIN :: nat where
  "MAX_PER_MIN = 3"

definition MAX_REQ_PER_MIN :: nat where
  "MAX_REQ_PER_MIN = 5"

text \<open>\<open>enforceRateLimit\<close> of part_000, lines 148-158.\<close>

definition enforceRateLimit :: "int \<Rightarrow> string \<Rightarrow> rate_store \<Rightarrow> (error + unit) \<times> rate_store" where
  "enforceRateLimit now ip RATE_LIMITS =
     (let rec = RATE_LIMITS ip;
          RATE_LIMITS1 =
            (case rec of
               Some r \<Rightarrow> if now > reset r then RATE_LIMITS(ip := None) else RATE_LIMITS
             | None \<Rightarrow> RATE_LIMITS);
          current =
            (case RATE_LIMITS1 ip of
               Some r \<Rightarrow> r
             | None \<Rightarrow> \<lparr>count = 0, reset = now + 60000\<rparr>)
      in if count current \<ge> MAX_PER_MIN
         then (Inl (Error ''Rate limit: 3 requests/minute/IP''), RATE_LIMITS1)
         else (Inr (),
               RATE_LIMITS1(ip \<mapsto> \<lparr>count = count current + 1, reset = reset current\<rparr>)))"

text \<open>\<open>checkRateLimit(ip)\<close> of mcp-tool.ts, lines 207-220.\<close>

definition checkRateLimit :: "int \<Rightarrow> string \<Rightarrow> rate_store \<Rightarrow> (error + unit) \<times> rate_store" where
  "checkRateLimit now ip RATE_LIMITS =
     (let record' = RATE_LIMITS ip;
          RATE_LIMITS1 =
            (case record' of
               Some r \<Rightarrow> if now > reset r then RATE_LIMITS(ip := None) else RATE_LIMITS
             | None \<Rightarrow> RATE_LIMITS);
          current =
            (case RATE_LIMITS1 ip of
               Some r \<Rightarrow> r
             | None \<Rightarrow> \<lparr>count = 0, reset = now + 60000\<rparr>)
      in if count current \<ge> MAX_REQ_PER_MIN
         then (Inl (Error ''Rate limit exceeded. Try again in 1 minute.''), RATE_LIMITS1)
         else (Inr (),
               RATE_LIMITS1(ip \<mapsto> \<lparr>count = count current + 1, reset = reset current\<rparr>)))"

text \<open>
  The simple handler's limiter (mcp-tool.ts, lines 5-20): two module variables,
  \<open>requestCount\<close> and \<open>lastReset\<close>, and no client identity.
\<close>

record global_limiter =
  requestCount :: nat
  lastReset :: int

definition RATE_LIMIT_PER_MINUTE :: nat where
  "RATE_LIMIT_PER_MINUTE = 10"

definition checkRateLimit_global :: "int \<Rightarrow> global_limiter \<Rightarrow> (error + unit) \<times> global_limiter" where
  "checkRateLimit_global now g =
     (let g1 = (if now - lastReset g > 60000 then \<lparr>requestCount = 0, lastReset = now\<rparr> else g)
      in if requestCount g1 \<ge> RATE_LIMIT_PER_MINUTE
         then (Inl (Error ''Rate limit exceeded: max 10 requests per minute''), g1)
         else (Inr (), g1\<lparr>requestCount := requestCount g1 + 1\<rparr>))"

text \<open>
  The record the limiter works on after its discard step: the stored one while its
  window is open, a fresh one (count 0, window of 60 seconds from now) otherwise.
\<close>

definition current_record :: "int \<Rightarrow> rate_record option \<Rightarrow> rate_record" where
  "current_record now r =
     (case r of
        Some x \<Rightarrow> if now > reset x then \<lparr>count = 0, reset = now + 60000\<rparr> else x
      | None \<Rightarrow> \<lparr>count = 0, reset = now + 60000\<rparr>)"

definition counts_bounded :: "nat \<Rightarrow> rate_store \<Rightarrow> bool" where
  "counts_bounded limit S = (\<forall>k r. S k = Some r \<longrightarrow> count r \<le> limit)"

text \<open>A run of acquire calls \<open>(now, ip)\<close>, each against the store the previous one left.\<close>

fun acquire_all ::
  "(int \<Rightarrow> string \<Rightarrow> rate_store \<Rightarrow> (error + unit) \<times> rate_store) \<Rightarrow>
   (int \<times> string) list \<Rightarrow> rate_store \<Rightarrow> rate_store" where
  "acquire_all acquire [] S = S"
| "acquire_all acquire ((now, ip) # calls) S = acquire_all acquire calls (snd (acquire now ip S))"

section \<open>Strings\<close>

text \<open>
  JavaScript string operations used by the sources. A code unit is modelled by an 8-bit
  \<open>char\<close>; every pattern of the sources is ASCII. \<open>startsWith\<close> and \<open>includes_str\<close>
  are \<open>String.prototype.startsWith\<close> and \<open>includes\<close>.
\<close>

definition startsWith :: "string \<Rightarrow> string \<Rightarrow> bool" where
  "startsWith s p = prefix p s"

fun includes_str :: "string \<Rightarrow> string \<Rightarrow> bool" where
  "includes_str [] p = (p = [])"
| "includes_str (c # s) p = (prefix p (c # s) \<or> includes_str s p)"

text \<open>
  \<open>s.split(sep)\<close> for a non-empty string separator: the input is scanned from the left,
  every occurrence of the separator closes the current piece and the scan resumes behind
  it; the rest of the input is the last piece, so the result is never empty.
\<close>

function split_from :: "string \<Rightarrow> string \<Rightarrow> string \<Rightarrow> string list" where
  "split_from sep cur [] = [cur]"
| "split_from sep cur (c # s) =
     (if sep \<noteq> [] \<and> prefix sep (c # s)
      then cur # split_from sep [] (drop (length sep) (c # s))
      else split_from sep (cur @ [c]) s)"
  by pat_completeness auto
termination
  by (relation "measure (\<lambda>(sep, cur, s). length s)") auto

definition js_split :: "string \<Rightarrow> string \<Rightarrow> string list" where
  "js_split s sep = split_from sep [] s"

text \<open>
  \<open>trim\<close> removes white space and line terminators at both ends; within 8-bit code units
  these are TAB, LF, VT, FF, CR, SP and NBSP.
\<close>

definition isWhiteSpace :: "char \<Rightarrow> bool" where
  "isWhiteSpace c = (c \<in> {CHR 0x09, CHR 0x0A, CHR 0x0B, CHR 0x0C, CHR 0x0D, CHR 0x20, CHR 0xA0})"

definition trim :: "string \<Rightarrow> string" where
  "trim s = rev (dropWhile isWhiteSpace (rev (dropWhile isWhiteSpace s)))"

text \<open>\<open>pieces.join(sep)\<close>.\<close>

fun join :: "string \<Rightarrow> string list \<Rightarrow> string" where
  "join sep [] = []"
| "join sep [x] = x"
| "join sep (x # y # ys) = x @ sep @ join sep (y # ys)"

text \<open>
  \<open>s.replace(/p1|p2|.../g, rep)\<close> for literal alternatives: at each position the first
  alternative that matches is replaced and the scan resumes behind the match.
\<close>

function replace_global :: "string list \<Rightarrow> string \<Rightarrow> string \<Rightarrow> string" where
  "replace_global pats rep [] = []"
| "replace_global pats rep (c # s) =
     (case find (\<lambda>p. p \<noteq> [] \<and> prefix p (c # s)) pats of
        Some p \<Rightarrow> rep @ replace_global pats rep (drop (length p) (c # s))
      | None \<Rightarrow> c # replace_global pats rep s)"
  by pat_completeness auto
termination
  by (relation "measure (\<lambda>(pats, rep, s). length s)") (auto simp: find_Some_iff)

text \<open>
  The three regular expressions of \<open>parseResults\<close>. \<open>first_match m s\<close> tries the
  matcher \<open>m\<close> at every start position from the left, as \<open>String.prototype.match\<close> does.
  \<open>lazy_until close\<close> is the lazy group \<open>(.*?)\<close> followed by the literal \<open>close\<close>: the
  shortest run of characters other than line terminators (LF, CR) up to \<open>close\<close>.
  A class such as \<open>[^"]+\<close> followed by the excluded character can only match the whole
  run up to the first such character, so no other backtracking alternative exists.
  \<^item> \<open>url_here\<close>: \<^verbatim>\<open>/<a class="result__a" href="([^"]+)"[^>]*>/\<close>, group 1;
  \<^item> \<open>title_here\<close>: \<^verbatim>\<open>/<a class="result__a"[^>]*>(.*?)<\/a>/\<close>, group 1;
  \<^item> \<open>snippet_here\<close>: \<^verbatim>\<open>/<div class="result__snippet">(.*?)<\/div>/\<close>, group 1.
\<close>

definition isLineTerminator :: "char \<Rightarrow> bool" where
  "isLineTerminator c = (c = CHR 0x0A \<or> c = CHR 0x0D)"

fun lazy_until :: "string \<Rightarrow> string \<Rightarrow> string option" where
  "lazy_until close [] = (if close = [] then Some [] else None)"
| "lazy_until close (c # s) =
     (if prefix close (c # s) then Some []
      else if isLineTerminator c then None
      else map_option ((#) c) (lazy_until close s))"

fun first_match :: "(string \<Rightarrow> 'a option) \<Rightarrow> string \<Rightarrow> 'a option" where
  "first_match m [] = m []"
| "first_match m (c # s) = (case m (c # s) of Some x \<Rightarrow> Some x | None \<Rightarrow> first_match m s)"

definition url_here :: "string \<Rightarrow> string option" where
  \<open>url_here s =
     (if prefix ''<a class="result__a" href="'' s
      then (let r = drop (length ''<a class="result__a" href="'') s;
                u = takeWhile (\<lambda>c. c \<noteq> CHR 0x22) r;
                r' = dropWhile (\<lambda>c. c \<noteq> CHR 0x22) r
            in if u \<noteq> [] \<and> r' \<noteq> [] \<and> CHR ''>'' \<in> set (tl r') then Some u else None)
      else None)\<close>

definition title_here :: "string \<Rightarrow> string option" where
  \<open>title_here s =
     (if prefix ''<a class="result__a"'' s
      then (let r = dropWhile (\<lambda>c. c \<noteq> CHR ''>'') (drop (length ''<a class="result__a"'') s)
            in if r = [] then None else lazy_until ''</a>'' (tl r))
      else None)\<close>

definition snippet_here :: "string \<Rightarrow> string option" where
  \<open>snippet_here s =
     (if prefix ''<div class="result__snippet">'' s
      then lazy_until ''</div>'' (drop (length ''<div class="result__snippet">'') s)
      else None)\<close>

text \<open>The \<open>clean\<close> closure of \<open>parseResults\<close> (part_000, lines 81-87).\<close>

definition clean :: "string \<Rightarrow> string" where
  "clean s =
     trim (replace_global [''&gt;''] ''>''
          (replace_global [''&lt;''] ''<''
          (replace_global [''&amp;''] ''&''
          (replace_global [''&quot;''] [CHR 0x22]
          (replace_global [''<b>'', ''<B>'', ''</b>'', ''</B>''] [] s)))))"

text \<open>
  \<open>parseResults\<close> (part_000, lines 61-96). \<open>parse_block\<close> is the body of the loop for
  one block: \<open>None\<close> stands for \<open>continue\<close>. \<open>parse_loop\<close> is the \<open>for\<close> loop with its
  \<open>break\<close> once \<open>results.length >= max\<close>; \<open>candidate_blocks\<close> is
  \<open>html.split(...).slice(1)\<close>.
\<close>

record search_result =
  title :: string
  url :: string
  description :: string

definition parse_block :: "string \<Rightarrow> search_result option" where
  "parse_block block =
     (case first_match url_here block of
        None \<Rightarrow> None
      | Some u \<Rightarrow>
          if \<not> startsWith u ''http'' then None
          else if includes_str u ''duckduckgo.com'' then None
          else
            (let titleMatch = first_match title_here block;
                 descMatch = first_match snippet_here block;
                 title0 = (case titleMatch of None \<Rightarrow> ''No title''
                           | Some t \<Rightarrow> if t = [] then ''No title'' else t);
                 desc0 = (case descMatch of None \<Rightarrow> [] | Some d \<Rightarrow> d)
             in Some \<lparr>title = clean title0, url = u, description = clean desc0\<rparr>))"

text \<open>
  The maximum is a JavaScript number: \<open>NaN\<close>, a finite value (a double is a rational)
  or an infinity. \<open>length_ge n max\<close> is the comparison \<open>results.length >= max\<close> for a
  length \<open>n\<close>; every comparison with \<open>NaN\<close> is false.
\<close>

datatype js_number = NaN | Finite rat | Infinity | NegInfinity

fun length_ge :: "nat \<Rightarrow> js_number \<Rightarrow> bool" where
  "length_ge n NaN = False"
| "length_ge n (Finite r) = (of_nat n \<ge> r)"
| "length_ge n Infinity = False"
| "length_ge n NegInfinity = True"

fun parse_loop :: "string list \<Rightarrow> js_number \<Rightarrow> search_result list \<Rightarrow> search_result list" where
  "parse_loop [] mx results = results"
| "parse_loop (block # blocks) mx results =
     (if length_ge (length results) mx then results
      else (case parse_block block of
              None \<Rightarrow> parse_loop blocks mx results
            | Some r \<Rightarrow> parse_loop blocks mx (results @ [r])))"

definition candidate_blocks :: "string \<Rightarrow> string list" where
  \<open>candidate_blocks html = drop 1 (js_split html ''<div class="result__body">'')\<close>

definition parseResults :: "string \<Rightarrow> js_number \<Rightarrow> search_result list" where
  "parseResults html mx = parse_loop (candidate_blocks html) mx []"


section \<open>Cookies\<close>

text \<open>
  \<open>extractCookies\<close> (part_000, lines 36-43). \<open>cookie_pair\<close> is the callback
  \<open>c => c.split(';')[0].trim()\<close>: were element 0 missing, \<open>trim\<close> would be called on
  \<open>undefined\<close> and throw a \<open>TypeError\<close>. \<open>keep_cookie\<close> is the filter callback.
  \<open>header_cookies\<close> is the inline extraction of \<open>getInitialCookies\<close> (mcp-tool.ts, lines
  131-134), which neither trims nor filters; \<open>join\<close> renders a missing element as the
  empty string.
\<close>

fun map_result :: "('a \<Rightarrow> error + 'b) \<Rightarrow> 'a list \<Rightarrow> error + 'b list" where
  "map_result f [] = Inr []"
| "map_result f (x # xs) =
     (case f x of
        Inl e \<Rightarrow> Inl e
      | Inr y \<Rightarrow> (case map_result f xs of Inl e \<Rightarrow> Inl e | Inr ys \<Rightarrow> Inr (y # ys)))"

definition cookie_pair :: "string \<Rightarrow> error + string" where
  "cookie_pair c =
     (case js_split c '';'' of
        [] \<Rightarrow> Inl (Error ''TypeError: Cannot read properties of undefined'')
      | x # _ \<Rightarrow> Inr (trim x))"

definition keep_cookie :: "string \<Rightarrow> bool" where
  "keep_cookie c =
     (c \<noteq> [] \<and> \<not> startsWith c ''path'' \<and> \<not> startsWith c ''expires'' \<and>
      \<not> startsWith c ''HttpOnly'')"

definition extractCookies :: "string option \<Rightarrow> error + string" where
  "extractCookies setCookie =
     (case setCookie of
        None \<Rightarrow> Inr []
      | Some s \<Rightarrow>
          if s = [] then Inr []
          else (case map_result cookie_pair (js_split s '','') of
                  Inl e \<Rightarrow> Inl e
                | Inr cs \<Rightarrow> Inr (join ''; '' (filter keep_cookie cs))))"

definition header_cookies :: "string \<Rightarrow> string" where
  "header_cookies cookieHeader =
     join ''; '' (map (\<lambda>c. case js_split c '';'' of [] \<Rightarrow> [] | x # _ \<Rightarrow> x)
                      (js_split cookieHeader '',''))"

section \<open>The outside world\<close>

text \<open>
  What one request observes of its environment. \<open>clock_limiter\<close> and \<open>clock_session\<close>
  are the values of \<open>Date.now()\<close> in the rate limiter and in the search function;
  \<open>random_agent\<close> is \<open>Math.floor(Math.random() * USER_AGENTS.length)\<close> before reduction
  to the index range; \<open>home_page\<close> is the outcome of the landing-page fetch (\<open>Inl\<close>: the
  promise rejects, also by the abort timer); \<open>search_page query cookie\<close> is the outcome of
  the fetch of the HTML results page and \<open>ddg_search query cookie\<close> the outcome of
  \<open>DDG.search\<close>, both as functions of the query and of the \<open>Cookie\<close> header sent (the
  empty string: no such header); \<open>proxy_page query\<close> is the fetch through the relay.
  The randomized delays only pass time and are not modelled. A value returned by
  \<open>DDG.search\<close> is \<open>None\<close> when it or its \<open>results\<close> property is nullish.
\<close>

record fetch_response =
  status :: nat
  set_cookie :: "string option"
  body_text :: "error + string"

definition ok :: "fetch_response \<Rightarrow> bool" where
  "ok r = (200 \<le> status r \<and> status r \<le> 299)"

type_synonym ddg_value = "search_result list option"

record world =
  clock_limiter :: int
  clock_session :: int
  random_agent :: nat
  home_page :: "error + fetch_response"
  search_page :: "string \<Rightarrow> string \<Rightarrow> error + fetch_response"
  ddg_search :: "string \<Rightarrow> string \<Rightarrow> error + ddg_value"
  proxy_page :: "string \<Rightarrow> error + fetch_response"

section \<open>Sessions and searches of part_000\<close>

text \<open>
  \<open>establishSession\<close> (lines 46-58) returns the pair of cookies and user agent.
  \<open>humanLikeSearch\<close> (lines 99-142) is split at line 119: \<open>reuse_or_establish\<close> is the
  part that reuses or creates the session and yields the cookies and user agent of the
  request, \<open>fetch_results\<close> the part that fetches and parses the results page; the
  count it hands to \<open>parseResults\<close> is the handler's count, an integer as the interface
  types the argument.
  \<open>decimal\<close> renders the status in the message \<open>HTTP ${searchRes.status}\<close>.
\<close>

record cookie_session =
  cookies :: string
  timestamp :: int

record agent_session = cookie_session +
  userAgent :: string

definition USER_AGENTS :: "string list" where
  "USER_AGENTS =
     [''Mozilla/5.0 (Windows NT 10.0; Win64; x64) AppleWebKit/537.36 (KHTML, like Gecko) Chrome/120.0.0.0 Safari/537.36'',
      ''Mozilla/5.0 (Macintosh; Intel Mac OS X 10_15_7) AppleWebKit/537.36 (KHTML, like Gecko) Chrome/120.0.0.0 Safari/537.36'',
      ''Mozilla/5.0 (X11; Linux x86_64) AppleWebKit/537.36 (KHTML, like Gecko) Chrome/120.0.0.0 Safari/537.36'',
      ''Mozilla/5.0 (Windows NT 10.0; Win64; x64; rv:134.0) Gecko/20100101 Firefox/134.0'']"

definition establishSession :: "world \<Rightarrow> error + string \<times> string" where
  "establishSession w =
     (let agent = USER_AGENTS ! (random_agent w mod length USER_AGENTS)
      in case home_page w of
           Inl e \<Rightarrow> Inl e
         | Inr homeRes \<Rightarrow>
             (case extractCookies (set_cookie homeRes) of
                Inl e \<Rightarrow> Inl e
              | Inr c \<Rightarrow> Inr (c, agent)))"

definition reuse_or_establish ::
  "world \<Rightarrow> int \<Rightarrow> string \<Rightarrow> (string \<rightharpoonup> agent_session) \<Rightarrow>
   (error + string \<times> string) \<times> (string \<rightharpoonup> agent_session)" where
  "reuse_or_establish w now clientIP SESSION_STORE =
     (let stored = SESSION_STORE clientIP;
          expired = (case stored of Some s \<Rightarrow> now - timestamp s > 12 * 60 * 1000 | None \<Rightarrow> False);
          SESSION_STORE1 = (if expired then SESSION_STORE(clientIP := None) else SESSION_STORE);
          session = (if expired then None else stored)
      in case session of
           Some s \<Rightarrow> (Inr (cookies s, userAgent s), SESSION_STORE1)
         | None \<Rightarrow>
             (case establishSession w of
                Inl e \<Rightarrow> (Inl e, SESSION_STORE1)
              | Inr (c, agent) \<Rightarrow>
                  (Inr (c, agent),
                   SESSION_STORE1(clientIP \<mapsto> \<lparr>cookies = c, timestamp = now, userAgent = agent\<rparr>))))"

fun decimal :: "nat \<Rightarrow> string" where
  "decimal n =
     (if n < 10 then [char_of (48 + n)] else decimal (n div 10) @ [char_of (48 + n mod 10)])"

definition fetch_results :: "world \<Rightarrow> string \<Rightarrow> int \<Rightarrow> string \<Rightarrow> error + search_result list" where
  "fetch_results w query cnt c =
     (case search_page w query c of
        Inl e \<Rightarrow> Inl e
      | Inr searchRes \<Rightarrow>
          if \<not> ok searchRes then Inl (Error (''HTTP '' @ decimal (status searchRes)))
          else (case body_text searchRes of
                  Inl e \<Rightarrow> Inl e
                | Inr html \<Rightarrow>
                    if includes_str html ''blocked your request'' \<or> includes_str html ''captcha''
                    then Inl (Error ''Blocked by anti-bot system'')
                    else Inr (parseResults html (Finite (of_int cnt)))))"

definition humanLikeSearch ::
  "world \<Rightarrow> int \<Rightarrow> string \<Rightarrow> int \<Rightarrow> string \<Rightarrow> (string \<rightharpoonup> agent_session) \<Rightarrow>
   (error + search_result list) \<times> (string \<rightharpoonup> agent_session)" where
  "humanLikeSearch w now query cnt clientIP SESSION_STORE =
     (case reuse_or_establish w now clientIP SESSION_STORE of
        (Inl e, SESSION_STORE1) \<Rightarrow> (Inl e, SESSION_STORE1)
      | (Inr (c, agent), SESSION_STORE1) \<Rightarrow> (fetch_results w query cnt c, SESSION_STORE1))"

section \<open>Sessions and searches of the session handler\<close>

text \<open>
  \<open>getInitialCookies\<close> (mcp-tool.ts, lines 113-141) and \<open>performSearchWithSession\<close>
  (lines 143-191), split at line 163: \<open>reuse_or_fetch\<close> yields the cookie string of the
  request, \<open>search_with_retry\<close> is the \<open>try\<close> block with its fallback.
\<close>

definition getInitialCookies :: "world \<Rightarrow> string" where
  "getInitialCookies w =
     (case home_page w of
        Inl e \<Rightarrow> []
      | Inr res \<Rightarrow>
          (case set_cookie res of
             None \<Rightarrow> []
           | Some cookieHeader \<Rightarrow> if cookieHeader = [] then [] else header_cookies cookieHeader))"

definition reuse_or_fetch ::
  "world \<Rightarrow> int \<Rightarrow> string \<Rightarrow> (string \<rightharpoonup> cookie_session) \<Rightarrow>
   string \<times> (string \<rightharpoonup> cookie_session)" where
  "reuse_or_fetch w now clientIP SESSION_STORE =
     (let stored = SESSION_STORE clientIP;
          expired = (case stored of Some s \<Rightarrow> now - timestamp s > 10 * 60 * 1000 | None \<Rightarrow> False);
          SESSION_STORE1 = (if expired then SESSION_STORE(clientIP := None) else SESSION_STORE);
          session = (if expired then None else stored);
          c0 = (case session of Some s \<Rightarrow> cookies s | None \<Rightarrow> [])
      in if c0 = []
         then (let c = getInitialCookies w
               in (c, if c \<noteq> []
                      then SESSION_STORE1(clientIP \<mapsto> \<lparr>cookies = c, timestamp = now\<rparr>)
                      else SESSION_STORE1))
         else (c0, SESSION_STORE1))"

definition search_with_retry :: "world \<Rightarrow> string \<Rightarrow> string \<Rightarrow> error + ddg_value" where
  "search_with_retry w query c =
     (case ddg_search w query c of
        Inr results \<Rightarrow> Inr results
      | Inl e \<Rightarrow>
          if c \<noteq> []
          then (case ddg_search w query [] of
                  Inr results \<Rightarrow> Inr results
                | Inl e2 \<Rightarrow> Inl e)
          else Inl e)"

definition performSearchWithSession ::
  "world \<Rightarrow> int \<Rightarrow> string \<Rightarrow> int \<Rightarrow> string \<Rightarrow> (string \<rightharpoonup> cookie_session) \<Rightarrow>
   (error + ddg_value) \<times> (string \<rightharpoonup> cookie_session)" where
  "performSearchWithSession w now query cnt clientIP SESSION_STORE =
     (case reuse_or_fetch w now clientIP SESSION_STORE of
        (c, SESSION_STORE1) \<Rightarrow> (search_with_retry w query c, SESSION_STORE1))"



section \<open>Requests and replies\<close>

text \<open>
  A request carries its method, the \<open>x-forwarded-for\<close> header and the parsed JSON body
  (\<open>None\<close>: no body). \<open>arguments = None\<close> stands for an \<open>arguments\<close> value without
  properties. The \<open>count\<close> argument is an integer or absent, as the interface types it.
  A reply is the status code and the JSON sent; the text block is kept as the template
  and its parameters (the query, the results, the error message) instead of the rendered
  markdown. \<open>client_ip\<close> is
  \<open>req.headers['x-forwarded-for']?.split(',')[0]?.trim() || fallback\<close>, and
  \<open>effective_count\<close> is \<open>Math.min(Math.max(Number(args.count) || 10, 1), 20)\<close>, where
  \<open>Number\<close> of an absent argument is \<open>NaN\<close>, which like 0 is falsy.
\<close>

datatype jsval = JUndefined | JNull | JBool bool | JNum int | JStr string | JObj

fun truthy :: "jsval \<Rightarrow> bool" where
  "truthy JUndefined = False"
| "truthy JNull = False"
| "truthy (JBool b) = b"
| "truthy (JNum n) = (n \<noteq> 0)"
| "truthy (JStr s) = (s \<noteq> [])"
| "truthy JObj = True"

fun is_string :: "jsval \<Rightarrow> bool" where
  "is_string (JStr s) = True"
| "is_string v = False"

fun string_of :: "jsval \<Rightarrow> string" where
  "string_of (JStr s) = s"
| "string_of v = []"

record tool_args =
  arg_query :: jsval
  arg_count :: "int option"

record tool_call =
  name :: jsval
  arguments :: "tool_args option"

record http_request =
  http_method :: string
  forwarded_for :: "string option"
  body :: "tool_call option"

datatype tool_text =
    InvalidRequestFormat
  | UnknownTool jsval
  | MissingQuery
  | NoResults string
  | ResultList string "search_result list"
  | ProxyResultList string "(string \<times> string) list"
  | SearchUnavailable string
  | SearchFailed string
  | ToolError string

datatype reply_body = NoBody | MethodNotAllowed | ToolContent tool_text bool

record reply =
  statusCode :: nat
  json :: reply_body

definition isError :: "reply \<Rightarrow> bool" where
  "isError r = (case json r of ToolContent t e \<Rightarrow> e | _ \<Rightarrow> False)"

definition client_ip :: "string \<Rightarrow> string option \<Rightarrow> string" where
  "client_ip fallback h =
     (case h of
        None \<Rightarrow> fallback
      | Some v \<Rightarrow>
          (case js_split v '','' of
             [] \<Rightarrow> fallback
           | x # _ \<Rightarrow> if trim x = [] then fallback else trim x))"

definition query_of :: "tool_args option \<Rightarrow> jsval" where
  "query_of args = (case args of None \<Rightarrow> JUndefined | Some a \<Rightarrow> arg_query a)"

definition count_of :: "tool_args option \<Rightarrow> int option" where
  "count_of args = (case args of None \<Rightarrow> None | Some a \<Rightarrow> arg_count a)"

definition effective_count :: "int option \<Rightarrow> int" where
  "effective_count c =
     min (max (case c of None \<Rightarrow> 10 | Some n \<Rightarrow> if n = 0 then 10 else n) 1) 20"

text \<open>
  The request checks of the handlers, in the words of the interface: a well-formed body
  names the search tool and carries a non-empty string query; \<open>request_query\<close> and
  \<open>request_count\<close> are the query and the effective count the handlers pass on.
\<close>

definition well_formed :: "tool_call option \<Rightarrow> bool" where
  "well_formed b =
     (case b of
        None \<Rightarrow> False
      | Some c \<Rightarrow>
          name c = JStr ''duckduckgo_web_search'' \<and> truthy (query_of (arguments c)) \<and>
          is_string (query_of (arguments c)))"

definition request_query :: "http_request \<Rightarrow> string" where
  "request_query req =
     string_of (query_of (case body req of None \<Rightarrow> None | Some b \<Rightarrow> arguments b))"

definition request_count :: "http_request \<Rightarrow> int" where
  "request_count req =
     effective_count (count_of (case body req of None \<Rightarrow> None | Some b \<Rightarrow> arguments b))"

section \<open>The handler of part_000\<close>

text \<open>\<open>handler\<close> of part_000 (lines 161-204); \<open>req.body || {}\<close> makes a missing body an
  empty object.\<close>

type_synonym scraper_state = "rate_store \<times> (string \<rightharpoonup> agent_session)"

definition handler_scraper :: "world \<Rightarrow> http_request \<Rightarrow> scraper_state \<Rightarrow> reply \<times> scraper_state" where
  "handler_scraper w req st =
     (if http_method req \<noteq> ''POST'' then (\<lparr>statusCode = 405, json = NoBody\<rparr>, st)
      else
        (let clientIP = client_ip ''127.0.0.1'' (forwarded_for req)
         in case enforceRateLimit (clock_limiter w) clientIP (fst st) of
              (Inl error, RATE_LIMITS1) \<Rightarrow>
                (\<lparr>statusCode = 200,
                  json = ToolContent (SearchUnavailable (message error)) True\<rparr>,
                 (RATE_LIMITS1, snd st))
            | (Inr u, RATE_LIMITS1) \<Rightarrow>
                (let name' = (case body req of None \<Rightarrow> JUndefined | Some b \<Rightarrow> name b);
                     args = (case body req of None \<Rightarrow> None | Some b \<Rightarrow> arguments b)
                 in if name' \<noteq> JStr ''duckduckgo_web_search'' \<or> \<not> truthy (query_of args) \<or>
                       \<not> is_string (query_of args)
                    then (\<lparr>statusCode = 400, json = ToolContent InvalidRequestFormat True\<rparr>,
                          (RATE_LIMITS1, snd st))
                    else
                      (let cnt = effective_count (count_of args);
                           query = string_of (query_of args)
                       in case humanLikeSearch w (clock_session w) query cnt clientIP (snd st) of
                            (Inl error, SESSION_STORE1) \<Rightarrow>
                              (\<lparr>statusCode = 200,
                                json = ToolContent (SearchUnavailable (message error)) True\<rparr>,
                               (RATE_LIMITS1, SESSION_STORE1))
                          | (Inr results, SESSION_STORE1) \<Rightarrow>
                              (\<lparr>statusCode = 200,
                                json = ToolContent
                                  (if results = [] then NoResults query
                                   else ResultList query results) False\<rparr>,
                               (RATE_LIMITS1, SESSION_STORE1))))))"

section \<open>The simple handler\<close>

text \<open>\<open>handler\<close> of mcp-tool.ts, lines 22-80. Destructuring a missing body throws inside
  the \<open>try\<close> block. Its count expression \<open>Math.min(Math.max(args.count || 10, 1), 20)\<close>
  is \<open>effective_count\<close> on an integer or absent argument, and \<open>DDG.search\<close> is called
  without headers, hence without cookies.\<close>

definition handler_simple :: "world \<Rightarrow> http_request \<Rightarrow> global_limiter \<Rightarrow> reply \<times> global_limiter" where
  "handler_simple w req g =
     (if http_method req \<noteq> ''POST'' then (\<lparr>statusCode = 405, json = MethodNotAllowed\<rparr>, g)
      else
        (case body req of
           None \<Rightarrow>
             (\<lparr>statusCode = 500,
               json = ToolContent (ToolError ''Cannot destructure property of undefined'') True\<rparr>, g)
         | Some b \<Rightarrow>
             if name b \<noteq> JStr ''duckduckgo_web_search''
             then (\<lparr>statusCode = 400, json = ToolContent (UnknownTool (name b)) True\<rparr>, g)
             else if \<not> truthy (query_of (arguments b)) \<or> \<not> is_string (query_of (arguments b))
             then (\<lparr>statusCode = 400, json = ToolContent MissingQuery True\<rparr>, g)
             else
               (let cnt = effective_count (count_of (arguments b));
                    query = string_of (query_of (arguments b))
                in case checkRateLimit_global (clock_limiter w) g of
                     (Inl error, g1) \<Rightarrow>
                       (\<lparr>statusCode = 500, json = ToolContent (ToolError (message error)) True\<rparr>, g1)
                   | (Inr u, g1) \<Rightarrow>
                       (case ddg_search w query [] of
                          Inl error \<Rightarrow>
                            (\<lparr>statusCode = 500,
                              json = ToolContent (ToolError (message error)) True\<rparr>, g1)
                        | Inr searchResults \<Rightarrow>
                            (case searchResults of
                               None \<Rightarrow>
                                 (\<lparr>statusCode = 200, json = ToolContent (NoResults query) False\<rparr>, g1)
                             | Some rs \<Rightarrow>
                                 if rs = []
                                 then (\<lparr>statusCode = 200,
                                         json = ToolContent (NoResults query) False\<rparr>, g1)
                                 else (\<lparr>statusCode = 200,
                                         json = ToolContent
                                           (ResultList query (take (nat cnt) rs)) False\<rparr>, g1))))))"

section \<open>The session handler\<close>

text \<open>
  \<open>handler\<close> of mcp-tool.ts, lines 222-311. \<open>matchAll_anchor\<close> is
  \<^verbatim>\<open>html.matchAll(/<a class="result__a" href="([^"]+)">([^<]+)<\/a>/g)\<close> with its two
  groups: \<open>anchor_here\<close> matches at one position, and after a match the scan skips the
  matched text (the counter of \<open>matchAll_from\<close>). \<open>proxy_fallback\<close> is the inner
  \<open>catch\<close> block (lines 255-281): \<open>Some\<close> is its early return, \<open>None\<close> the fall through to
  \<open>throw e\<close>.
\<close>

definition anchor_here :: "string \<Rightarrow> (string \<times> string) option" where
  \<open>anchor_here s =
     (if prefix ''<a class="result__a" href="'' s
      then (let r = drop (length ''<a class="result__a" href="'') s;
                u = takeWhile (\<lambda>c. c \<noteq> CHR 0x22) r;
                r' = dropWhile (\<lambda>c. c \<noteq> CHR 0x22) r
            in if u \<noteq> [] \<and> prefix ''">'' r'
               then (let r2 = drop 2 r';
                         t = takeWhile (\<lambda>c. c \<noteq> CHR ''<'') r2;
                         r3 = dropWhile (\<lambda>c. c \<noteq> CHR ''<'') r2
                     in if t \<noteq> [] \<and> prefix ''</a>'' r3 then Some (u, t) else None)
               else None)
      else None)\<close>

fun matchAll_from :: "nat \<Rightarrow> string \<Rightarrow> (string \<times> string) list" where
  \<open>matchAll_from k [] = []\<close>
| \<open>matchAll_from (Suc k) (c # s) = matchAll_from k s\<close>
| \<open>matchAll_from 0 (c # s) =
     (case anchor_here (c # s) of
        Some (u, t) \<Rightarrow>
          (u, t) #
          matchAll_from
            (length ''<a class="result__a" href="'' + length u + length ''">'' + length t +
             length ''</a>'' - 1) s
      | None \<Rightarrow> matchAll_from 0 s)\<close>

definition matchAll_anchor :: "string \<Rightarrow> (string \<times> string) list" where
  "matchAll_anchor html = matchAll_from 0 html"

type_synonym session_state = "rate_store \<times> (string \<rightharpoonup> cookie_session)"

definition proxy_fallback :: "world \<Rightarrow> string \<Rightarrow> int \<Rightarrow> error \<Rightarrow> reply option" where
  "proxy_fallback w query cnt e =
     (if includes_str (message e) ''VQD'' \<or> includes_str (message e) ''blocked''
      then (case proxy_page w query of
              Inl proxyErr \<Rightarrow> None
            | Inr htmlRes \<Rightarrow>
                (case body_text htmlRes of
                   Inl proxyErr \<Rightarrow> None
                 | Inr html \<Rightarrow>
                     (let matches = matchAll_anchor html
                      in if matches \<noteq> []
                         then Some \<lparr>statusCode = 200,
                                    json = ToolContent
                                      (ProxyResultList query
                                        (map (\<lambda>(u, t). (u, trim t)) (take (nat cnt) matches)))
                                      False\<rparr>
                         else None)))
      else None)"

definition handler_session :: "world \<Rightarrow> http_request \<Rightarrow> session_state \<Rightarrow> reply \<times> session_state" where
  "handler_session w req st =
     (if http_method req \<noteq> ''POST'' then (\<lparr>statusCode = 405, json = MethodNotAllowed\<rparr>, st)
      else
        (let clientIP = client_ip ''unknown'' (forwarded_for req)
         in case checkRateLimit (clock_limiter w) clientIP (fst st) of
              (Inl error, RATE_LIMITS1) \<Rightarrow>
                (\<lparr>statusCode = 200, json = ToolContent (SearchFailed (message error)) True\<rparr>,
                 (RATE_LIMITS1, snd st))
            | (Inr u, RATE_LIMITS1) \<Rightarrow>
                (case body req of
                   None \<Rightarrow>
                     (\<lparr>statusCode = 200,
                       json = ToolContent
                         (SearchFailed ''Cannot destructure property of undefined'') True\<rparr>,
                      (RATE_LIMITS1, snd st))
                 | Some b \<Rightarrow>
                     if name b \<noteq> JStr ''duckduckgo_web_search''
                     then (\<lparr>statusCode = 400, json = ToolContent (UnknownTool (name b)) True\<rparr>,
                           (RATE_LIMITS1, snd st))
                     else if \<not> truthy (query_of (arguments b)) \<or>
                             \<not> is_string (query_of (arguments b))
                     then (\<lparr>statusCode = 400, json = ToolContent MissingQuery True\<rparr>,
                           (RATE_LIMITS1, snd st))
                     else
                       (let cnt = effective_count (count_of (arguments b));
                            query = string_of (query_of (arguments b))
                        in case performSearchWithSession w (clock_session w) query cnt clientIP
                                  (snd st) of
                             (Inl e, SESSION_STORE1) \<Rightarrow>
                               (case proxy_fallback w query cnt e of
                                  Some r \<Rightarrow> (r, (RATE_LIMITS1, SESSION_STORE1))
                                | None \<Rightarrow>
                                    (\<lparr>statusCode = 200,
                                      json = ToolContent (SearchFailed (message e)) True\<rparr>,
                                     (RATE_LIMITS1, SESSION_STORE1)))
                           | (Inr searchResults, SESSION_STORE1) \<Rightarrow>
                               (case searchResults of
                                  None \<Rightarrow>
                                    (\<lparr>statusCode = 200,
                                      json = ToolContent (NoResults query) False\<rparr>,
                                     (RATE_LIMITS1, SESSION_STORE1))
                                | Some rs \<Rightarrow>
                                    if rs = []
                                    then (\<lparr>statusCode = 200,
                                            json = ToolContent (NoResults query) False\<rparr>,
                                          (RATE_LIMITS1, SESSION_STORE1))
                                    else (\<lparr>statusCode = 200,
                                            json = ToolContent
                                              (ResultList query (take (nat cnt) rs)) False\<rparr>,
                                          (RATE_LIMITS1, SESSION_STORE1)))))))"

section \<open>Sample inputs\<close>

text \<open>A results page of five blocks: an advertisement on the engine's own domain, two
  organic results around a relative settings link, and one more organic result.\<close>

definition sample_page :: string where
  \<open>sample_page = ''<div class="result__body"><a class="result__a" href="https://duckduckgo.com/y.js?ad=1">Ad</a></div><div class="result__body"><a class="result__a" href="https://www.rust-lang.org/" rel="nofollow"><b>Rust</b> &amp; friends</a><div class="result__snippet"> A language </div></div><div class="result__body"><a class="result__a" href="/settings">Settings</a></div><div class="result__body"><a class="result__a" href="https://doc.rust-lang.org/book/">The Book</a></div><div class="result__body"><a class="result__a" href="https://crates.io/">crates</a></div>''\<close>

text \<open>A run of requests against the simple handler, each on the limiter the previous one
  left; a well-formed search request of a given client; a world in which every fetch but
  the relay succeeds.\<close>

fun serve_simple :: "world \<Rightarrow> http_request list \<Rightarrow> global_limiter \<Rightarrow> global_limiter" where
  "serve_simple w [] g = g"
| "serve_simple w (req # reqs) g = serve_simple w reqs (snd (handler_simple w req g))"

definition search_request :: "string \<Rightarrow> http_request" where
  "search_request ip =
     \<lparr>http_method = ''POST'', forwarded_for = Some ip,
      body = Some \<lparr>name = JStr ''duckduckgo_web_search'',
                   arguments = Some \<lparr>arg_query = JStr ''rust'', arg_count = Some 3\<rparr>\<rparr>\<rparr>"

definition one_result :: search_result where
  "one_result = \<lparr>title = ''Rust'', url = ''https://www.rust-lang.org/'', description = ''A language''\<rparr>"

definition calm_world :: world where
  "calm_world =
     \<lparr>clock_limiter = 1000, clock_session = 1000, random_agent = 0,
      home_page = Inr \<lparr>status = 200, set_cookie = Some ''sid=1; Path=/'', body_text = Inr []\<rparr>,
      search_page = (\<lambda>q c. Inr \<lparr>status = 200, set_cookie = None, body_text = Inr sample_page\<rparr>),
      ddg_search = (\<lambda>q c. Inr (Some [one_result])),
      proxy_page = (\<lambda>q. Inl (Error ''fetch failed''))\<rparr>"

text \<open>A world in which every search fails, a request for another tool, and limiter states
  at their ceilings.\<close>

definition hostile_world :: world where
  "hostile_world =
     \<lparr>clock_limiter = 1000, clock_session = 1000, random_agent = 0,
      home_page = Inr \<lparr>status = 200, set_cookie = Some ''sid=1; Path=/'', body_text = Inr []\<rparr>,
      search_page = (\<lambda>q c. Inr \<lparr>status = 403, set_cookie = None, body_text = Inr []\<rparr>),
      ddg_search = (\<lambda>q c. Inl (Error ''DDG detected an anomaly'')),
      proxy_page = (\<lambda>q. Inl (Error ''fetch failed''))\<rparr>"

definition other_tool_request :: http_request where
  "other_tool_request =
     \<lparr>http_method = ''POST'', forwarded_for = Some ''10.0.0.1'',
      body = Some \<lparr>name = JStr ''web_fetch'',
                   arguments = Some \<lparr>arg_query = JStr ''rust'', arg_count = None\<rparr>\<rparr>\<rparr>"

definition full3 :: scraper_state where
  "full3 = ([''10.0.0.1'' \<mapsto> \<lparr>count = 3, reset = 60000\<rparr>], Map.empty)"

definition full5 :: session_state where
  "full5 = ([''10.0.0.1'' \<mapsto> \<lparr>count = 5, reset = 60000\<rparr>], Map.empty)"

definition full10 :: global_limiter where
  "full10 = \<lparr>requestCount = 10, lastReset = 900\<rparr>"

definition idle :: global_limiter where
  "idle = \<lparr>requestCount = 0, lastReset = 900\<rparr>"

text \<open>Sessions created at time 0, and worlds in which the landing page cannot be fetched,
  in which requests that carry a cookie are blocked, and in which the primary search and
  the retry fail with different errors.\<close>

definition stale_agent_session :: agent_session where
  "stale_agent_session = \<lparr>cookies = ''sid=old'', timestamp = 0, userAgent = ''Mozilla/5.0''\<rparr>"

definition stale_cookie_session :: cookie_session where
  "stale_cookie_session = \<lparr>cookies = ''sid=old'', timestamp = 0\<rparr>"

definition offline_home_world :: world where
  "offline_home_world =
     \<lparr>clock_limiter = 1000, clock_session = 1000, random_agent = 0,
      home_page = Inl (Error ''fetch failed''),
      search_page = (\<lambda>q c. Inr \<lparr>status = 200, set_cookie = None, body_text = Inr sample_page\<rparr>),
      ddg_search = (\<lambda>q c. Inr (Some [one_result])),
      proxy_page = (\<lambda>q. Inl (Error ''fetch failed''))\<rparr>"

definition cookie_blocked_world :: world where
  "cookie_blocked_world =
     \<lparr>clock_limiter = 1000, clock_session = 1000, random_agent = 0,
      home_page = Inr \<lparr>status = 200, set_cookie = Some ''sid=1; Path=/'', body_text = Inr []\<rparr>,
      search_page = (\<lambda>q c.
        if c = [] then Inr \<lparr>status = 200, set_cookie = None, body_text = Inr sample_page\<rparr>
        else Inr \<lparr>status = 200, set_cookie = None,
                  body_text = Inr ''<html>Please solve the captcha</html>''\<rparr>),
      ddg_search = (\<lambda>q c.
        if c = [] then Inr (Some [one_result]) else Inl (Error ''DDG detected an anomaly'')),
      proxy_page = (\<lambda>q. Inl (Error ''fetch failed''))\<rparr>"

definition failing_world :: world where
  "failing_world =
     \<lparr>clock_limiter = 1000, clock_session = 1000, random_agent = 0,
      home_page = Inr \<lparr>status = 200, set_cookie = Some ''sid=1; Path=/'', body_text = Inr []\<rparr>,
      search_page = (\<lambda>q c. Inr \<lparr>status = 503, set_cookie = None, body_text = Inr []\<rparr>),
      ddg_search = (\<lambda>q c.
        if c = [] then Inl (Error ''retry failed'') else Inl (Error ''primary failed'')),
      proxy_page = (\<lambda>q. Inl (Error ''fetch failed''))\<rparr>"

section \<open>Properties of the rate limiters\<close>

lemma enforceRateLimit_reject:
  "MAX_PER_MIN \<le> count (current_record now (S ip)) \<Longrightarrow>
   enforceRateLimit now ip S = (Inl (Error ''Rate limit: 3 requests/minute/IP''), S)"
  by (auto simp: enforceRateLimit_def current_record_def MAX_PER_MIN_def Let_def
      split: option.splits if_splits)

lemma enforceRateLimit_accept:
  "count (current_record now (S ip)) < MAX_PER_MIN \<Longrightarrow>
   enforceRateLimit now ip S =
     (Inr (), S(ip \<mapsto> \<lparr>count = count (current_record now (S ip)) + 1,
                        reset = reset (current_record now (S ip))\<rparr>))"
  by (auto simp: enforceRateLimit_def current_record_def MAX_PER_MIN_def Let_def
      split: option.splits if_splits)

lemma checkRateLimit_reject:
  "MAX_REQ_PER_MIN \<le> count (current_record now (S ip)) \<Longrightarrow>
   checkRateLimit now ip S = (Inl (Error ''Rate limit exceeded. Try again in 1 minute.''), S)"
  by (auto simp: checkRateLimit_def current_record_def MAX_REQ_PER_MIN_def Let_def
      split: option.splits if_splits)

lemma checkRateLimit_accept:
  "count (current_record now (S ip)) < MAX_REQ_PER_MIN \<Longrightarrow>
   checkRateLimit now ip S =
     (Inr (), S(ip \<mapsto> \<lparr>count = count (current_record now (S ip)) + 1,
                        reset = reset (current_record now (S ip))\<rparr>))"
  by (auto simp: checkRateLimit_def current_record_def MAX_REQ_PER_MIN_def Let_def
      split: option.splits if_splits)

lemma enforceRateLimit_bounded:
  "counts_bounded MAX_PER_MIN S \<Longrightarrow> counts_bounded MAX_PER_MIN (snd (enforceRateLimit now ip S))"
proof (cases "MAX_PER_MIN \<le> count (current_record now (S ip))")
  case True
  assume "counts_bounded MAX_PER_MIN S"
  with True show ?thesis by (simp add: enforceRateLimit_reject)
next
  case False
  assume "counts_bounded MAX_PER_MIN S"
  with False show ?thesis
    by (auto simp: enforceRateLimit_accept counts_bounded_def)
qed

lemma checkRateLimit_bounded:
  "counts_bounded MAX_REQ_PER_MIN S \<Longrightarrow>
   counts_bounded MAX_REQ_PER_MIN (snd (checkRateLimit now ip S))"
proof (cases "MAX_REQ_PER_MIN \<le> count (current_record now (S ip))")
  case True
  assume "counts_bounded MAX_REQ_PER_MIN S"
  with True show ?thesis by (simp add: checkRateLimit_reject)
next
  case False
  assume "counts_bounded MAX_REQ_PER_MIN S"
  with False show ?thesis
    by (auto simp: checkRateLimit_accept counts_bounded_def)
qed

lemma acquire_all_enforce_bounded:
  "counts_bounded MAX_PER_MIN S \<Longrightarrow>
   counts_bounded MAX_PER_MIN (acquire_all enforceRateLimit calls S)"
  by (induction calls arbitrary: S) (auto simp: enforceRateLimit_bounded)

lemma acquire_all_check_bounded:
  "counts_bounded MAX_REQ_PER_MIN S \<Longrightarrow>
   counts_bounded MAX_REQ_PER_MIN (acquire_all checkRateLimit calls S)"
  by (induction calls arbitrary: S) (auto simp: checkRateLimit_bounded)

lemma counts_bounded_empty: "counts_bounded n Map.empty"
  by (simp add: counts_bounded_def)

text \<open>
  Claim C1. For every client identity, acquire first discards the stored record when
  its reset time has passed (\<open>current_record\<close> is the record after that step). If the
  count of that record has reached the ceiling, the call fails with the rate-limit
  error and the store is exactly the one before the call; otherwise the call succeeds
  and the identity's record is the current one with its count incremented by one.
  Hence no call raises a count above the ceiling, and in every store reached from the
  empty one by acquire calls all counts are at most the ceiling. This holds for
  \<open>enforceRateLimit\<close> (ceiling 3) and for \<open>checkRateLimit\<close> (ceiling 5).
\<close>

theorem rate_limiter_acquire:
  "(MAX_PER_MIN \<le> count (current_record now (S ip)) \<longrightarrow>
      enforceRateLimit now ip S = (Inl (Error ''Rate limit: 3 requests/minute/IP''), S)) \<and>
   (count (current_record now (S ip)) < MAX_PER_MIN \<longrightarrow>
      enforceRateLimit now ip S =
        (Inr (), S(ip \<mapsto> \<lparr>count = count (current_record now (S ip)) + 1,
                           reset = reset (current_record now (S ip))\<rparr>))) \<and>
   (counts_bounded MAX_PER_MIN S \<longrightarrow>
      counts_bounded MAX_PER_MIN (snd (enforceRateLimit now ip S))) \<and>
   counts_bounded MAX_PER_MIN (acquire_all enforceRateLimit calls Map.empty) \<and>
   (MAX_REQ_PER_MIN \<le> count (current_record now (T ip)) \<longrightarrow>
      checkRateLimit now ip T =
        (Inl (Error ''Rate limit exceeded. Try again in 1 minute.''), T)) \<and>
   (count (current_record now (T ip)) < MAX_REQ_PER_MIN \<longrightarrow>
      checkRateLimit now ip T =
        (Inr (), T(ip \<mapsto> \<lparr>count = count (current_record now (T ip)) + 1,
                           reset = reset (current_record now (T ip))\<rparr>))) \<and>
   (counts_bounded MAX_REQ_PER_MIN T \<longrightarrow>
      counts_bounded MAX_REQ_PER_MIN (snd (checkRateLimit now ip T))) \<and>
   counts_bounded MAX_REQ_PER_MIN (acquire_all checkRateLimit calls Map.empty)"
  using enforceRateLimit_reject [of now S ip] enforceRateLimit_accept [of now S ip]
    enforceRateLimit_bounded [of S now ip]
    acquire_all_enforce_bounded [OF counts_bounded_empty, of calls]
    checkRateLimit_reject [of now T ip] checkRateLimit_accept [of now T ip]
    checkRateLimit_bounded [of T now ip]
    acquire_all_check_bounded [OF counts_bounded_empty, of calls]
  by blast

text \<open>
  At the ceiling inside the window the call is rejected and the store is untouched; one
  millisecond after the reset time the same client is admitted with a fresh record.
\<close>

theorem rate_limiter_acquire_witness:
  "enforceRateLimit 60000 ''10.0.0.1'' [''10.0.0.1'' \<mapsto> \<lparr>count = 3, reset = 60000\<rparr>] =
     (Inl (Error ''Rate limit: 3 requests/minute/IP''),
      [''10.0.0.1'' \<mapsto> \<lparr>count = 3, reset = 60000\<rparr>]) \<and>
   enforceRateLimit 60001 ''10.0.0.1'' [''10.0.0.1'' \<mapsto> \<lparr>count = 3, reset = 60000\<rparr>] =
     (Inr (), [''10.0.0.1'' \<mapsto> \<lparr>count = 1, reset = 120001\<rparr>]) \<and>
   checkRateLimit 60000 ''10.0.0.1'' [''10.0.0.1'' \<mapsto> \<lparr>count = 5, reset = 60000\<rparr>] =
     (Inl (Error ''Rate limit exceeded. Try again in 1 minute.''),
      [''10.0.0.1'' \<mapsto> \<lparr>count = 5, reset = 60000\<rparr>]) \<and>
   checkRateLimit 60000 ''10.0.0.1'' [''10.0.0.1'' \<mapsto> \<lparr>count = 4, reset = 60000\<rparr>] =
     (Inr (), [''10.0.0.1'' \<mapsto> \<lparr>count = 5, reset = 60000\<rparr>]) \<and>
   counts_bounded MAX_PER_MIN [''10.0.0.1'' \<mapsto> \<lparr>count = 3, reset = 60000\<rparr>] \<and>
   counts_bounded MAX_PER_MIN
     (snd (enforceRateLimit 60000 ''10.0.0.1'' [''10.0.0.1'' \<mapsto> \<lparr>count = 3, reset = 60000\<rparr>])) \<and>
   counts_bounded MAX_REQ_PER_MIN [''10.0.0.1'' \<mapsto> \<lparr>count = 4, reset = 60000\<rparr>] \<and>
   counts_bounded MAX_REQ_PER_MIN
     (snd (checkRateLimit 60000 ''10.0.0.1'' [''10.0.0.1'' \<mapsto> \<lparr>count = 4, reset = 60000\<rparr>]))"
proof -
  let ?S3 = "[''10.0.0.1'' \<mapsto> \<lparr>count = 3, reset = 60000\<rparr>]"
  let ?S4 = "[''10.0.0.1'' \<mapsto> \<lparr>count = 4, reset = 60000\<rparr>]"
  let ?S5 = "[''10.0.0.1'' \<mapsto> \<lparr>count = 5, reset = 60000\<rparr>]"
  have b3: "counts_bounded MAX_PER_MIN ?S3"
    by (simp add: counts_bounded_def MAX_PER_MIN_def)
  have b4: "counts_bounded MAX_REQ_PER_MIN ?S4"
    by (simp add: counts_bounded_def MAX_REQ_PER_MIN_def)
  have c3: "MAX_PER_MIN \<le> count (current_record 60000 (?S3 ''10.0.0.1''))"
    by (simp add: current_record_def MAX_PER_MIN_def)
  have c3': "count (current_record 60001 (?S3 ''10.0.0.1'')) < MAX_PER_MIN"
    by (simp add: current_record_def MAX_PER_MIN_def)
  have c5: "MAX_REQ_PER_MIN \<le> count (current_record 60000 (?S5 ''10.0.0.1''))"
    by (simp add: current_record_def MAX_REQ_PER_MIN_def)
  have c4: "count (current_record 60000 (?S4 ''10.0.0.1'')) < MAX_REQ_PER_MIN"
    by (simp add: current_record_def MAX_REQ_PER_MIN_def)
  note A = rate_limiter_acquire [of 60000 ?S3 "''10.0.0.1''" "[]" ?S5]
  note B = rate_limiter_acquire [of 60001 ?S3 "''10.0.0.1''" "[]" ?S4]
  note C = rate_limiter_acquire [of 60000 ?S3 "''10.0.0.1''" "[]" ?S4]
  have r1: "enforceRateLimit 60000 ''10.0.0.1'' ?S3 =
     (Inl (Error ''Rate limit: 3 requests/minute/IP''), ?S3)"
    using A c3 by blast
  have r2: "enforceRateLimit 60001 ''10.0.0.1'' ?S3 =
     (Inr (), ?S3(''10.0.0.1'' \<mapsto> \<lparr>count = count (current_record 60001 (?S3 ''10.0.0.1'')) + 1,
                           reset = reset (current_record 60001 (?S3 ''10.0.0.1''))\<rparr>))"
    using B c3' by blast
  have r3: "checkRateLimit 60000 ''10.0.0.1'' ?S5 =
     (Inl (Error ''Rate limit exceeded. Try again in 1 minute.''), ?S5)"
    using A c5 by blast
  have r4: "checkRateLimit 60000 ''10.0.0.1'' ?S4 =
     (Inr (), ?S4(''10.0.0.1'' \<mapsto> \<lparr>count = count (current_record 60000 (?S4 ''10.0.0.1'')) + 1,
                           reset = reset (current_record 60000 (?S4 ''10.0.0.1''))\<rparr>))"
    using C c4 by blast
  have r5: "counts_bounded MAX_PER_MIN (snd (enforceRateLimit 60000 ''10.0.0.1'' ?S3))"
    using A b3 by blast
  have r6: "counts_bounded MAX_REQ_PER_MIN (snd (checkRateLimit 60000 ''10.0.0.1'' ?S4))"
    using C b4 by blast
  have r2': "enforceRateLimit 60001 ''10.0.0.1'' ?S3 =
     (Inr (), [''10.0.0.1'' \<mapsto> \<lparr>count = 1, reset = 120001\<rparr>])"
    unfolding r2 by (simp add: current_record_def)
  have r4': "checkRateLimit 60000 ''10.0.0.1'' ?S4 = (Inr (), ?S5)"
    unfolding r4 by (simp add: current_record_def)
  from r1 r2' r3 r4' b3 r5 b4 r6 show ?thesis by blast
qed

section \<open>Properties of the result extractor\<close>







lemma join_Cons: "join sep (x # xs) = (if xs = [] then x else x @ sep @ join sep xs)"
  by (cases xs) auto

lemma split_from_nonempty: "split_from sep cur s \<noteq> []"
  by (induction sep cur s rule: split_from.induct) auto

lemma join_split_from: "join sep (split_from sep cur s) = cur @ s"
proof (induction sep cur s rule: split_from.induct)
  case (1 sep cur)
  show ?case by simp
next
  case (2 sep cur c s)
  show ?case
  proof (cases "sep \<noteq> [] \<and> prefix sep (c # s)")
    case True
    then have step: "split_from sep cur (c # s) = cur # split_from sep [] (drop (length sep) (c # s))"
      by simp
    from True have "sep @ drop (length sep) (c # s) = c # s"
      by (auto simp: prefix_def)
    moreover from True 2(1) have "join sep (split_from sep [] (drop (length sep) (c # s))) =
        drop (length sep) (c # s)"
      by simp
    ultimately show ?thesis
      unfolding step by (simp add: join_Cons split_from_nonempty)
  next
    case False
    with 2(2) show ?thesis by auto
  qed
qed




lemma sample_blocks: "length (candidate_blocks sample_page) = 5"
  by code_simp



section \<open>Properties of the cookie extractors\<close>

lemma split_from_single_head:
  "\<exists>rest. split_from [x] cur s = (cur @ takeWhile (\<lambda>c. c \<noteq> x) s) # rest"
proof (induction "[x]" cur s rule: split_from.induct)
  case (1 cur)
  show ?case by simp
next
  case (2 cur c s)
  show ?case
  proof (cases "c = x")
    case True
    then show ?thesis by simp
  next
    case False
    with 2(2) show ?thesis by auto
  qed
qed

lemma split_from_single_pieces:
  "x \<notin> set cur \<Longrightarrow> p \<in> set (split_from [x] cur s) \<Longrightarrow> x \<notin> set p"
proof (induction "[x]" cur s arbitrary: p rule: split_from.induct)
  case (1 cur)
  then show ?case by simp
next
  case (2 cur c s)
  show ?case
  proof (cases "c = x")
    case True
    with 2(1) [of p] 2(3,4) show ?thesis by auto
  next
    case False
    with 2(2) [of p] 2(3,4) show ?thesis by auto
  qed
qed

lemma cookie_pair_eq: "cookie_pair c = Inr (trim (takeWhile (\<lambda>x. x \<noteq> CHR '';'') c))"
proof -
  obtain rest where "split_from '';'' [] c = ([] @ takeWhile (\<lambda>x. x \<noteq> CHR '';'') c) # rest"
    using split_from_single_head [of "CHR '';''" "[]" c] by blast
  then show ?thesis by (simp add: cookie_pair_def js_split_def)
qed

lemma map_result_total: "(\<And>x. f x = Inr (g x)) \<Longrightarrow> map_result f xs = Inr (map g xs)"
  by (induction xs) auto

lemma extractCookies_Some:
  "extractCookies (Some s) =
     Inr (join ''; '' (filter keep_cookie
            (map (\<lambda>c. trim (takeWhile (\<lambda>x. x \<noteq> CHR '';'') c)) (js_split s '',''))))"
proof (cases "s = []")
  case True
  then show ?thesis
    by (simp add: extractCookies_def js_split_def keep_cookie_def trim_def)
next
  case False
  then show ?thesis
    by (simp add: extractCookies_def map_result_total [of cookie_pair, OF cookie_pair_eq])
qed

lemma header_cookies_eq:
  "header_cookies h = join ''; '' (map (takeWhile (\<lambda>x. x \<noteq> CHR '';'')) (js_split h '',''))"
proof -
  have "(case js_split c '';'' of [] \<Rightarrow> [] | x # _ \<Rightarrow> x) = takeWhile (\<lambda>x. x \<noteq> CHR '';'') c" for c
  proof -
    obtain rest where "split_from '';'' [] c = ([] @ takeWhile (\<lambda>x. x \<noteq> CHR '';'') c) # rest"
      using split_from_single_head [of "CHR '';''" "[]" c] by blast
    then show ?thesis by (simp add: js_split_def)
  qed
  then show ?thesis by (simp add: header_cookies_def)
qed

lemma trim_subset: "set (trim s) \<subseteq> set s"
  by (auto simp: trim_def dest!: set_dropWhileD)

text \<open>
  Claim C6, amended. \<open>extractCookies\<close> never throws. For absent input it returns the
  empty string. Otherwise it splits the header on commas (the pieces, joined by commas,
  are the header again), keeps of each piece the part before the first \<open>;\<close>, trimmed,
  drops the entries that are empty or start with exactly \<open>path\<close>, \<open>expires\<close> or
  \<open>HttpOnly\<close> (a case-sensitive prefix test), and joins the rest with \<open>; \<close>; so every
  entry joined is non-empty, free of \<open>,\<close> and \<open>;\<close> and starts with none of these three
  words as written. The inline extraction of \<open>getInitialCookies\<close> splits and joins in
  the same way and drops nothing.
\<close>

theorem extractCookies_case_sensitive:
  "extractCookies None = Inr [] \<and>
   extractCookies (Some s) =
     Inr (join ''; '' (filter keep_cookie
            (map (\<lambda>c. trim (takeWhile (\<lambda>x. x \<noteq> CHR '';'') c)) (js_split s '','')))) \<and>
   join '','' (js_split s '','') = s \<and>
   (\<forall>e \<in> set (filter keep_cookie
            (map (\<lambda>c. trim (takeWhile (\<lambda>x. x \<noteq> CHR '';'') c)) (js_split s '',''))).
      e \<noteq> [] \<and> CHR '','' \<notin> set e \<and> CHR '';'' \<notin> set e \<and>
      \<not> prefix ''path'' e \<and> \<not> prefix ''expires'' e \<and> \<not> prefix ''HttpOnly'' e) \<and>
   header_cookies s = join ''; '' (map (takeWhile (\<lambda>x. x \<noteq> CHR '';'')) (js_split s '',''))"
proof -
  have a: "extractCookies None = Inr []" by (simp add: extractCookies_def)
  have c: "join '','' (js_split s '','') = s" by (simp add: js_split_def join_split_from)
  have d: "e \<noteq> [] \<and> CHR '','' \<notin> set e \<and> CHR '';'' \<notin> set e \<and>
      \<not> prefix ''path'' e \<and> \<not> prefix ''expires'' e \<and> \<not> prefix ''HttpOnly'' e"
    if "e \<in> set (filter keep_cookie
            (map (\<lambda>c. trim (takeWhile (\<lambda>x. x \<noteq> CHR '';'') c)) (js_split s '','')))" for e
  proof -
    from that obtain p where k: "keep_cookie e" and p: "p \<in> set (js_split s '','')"
      and e: "e = trim (takeWhile (\<lambda>x. x \<noteq> CHR '';'') p)" by auto
    from p have "CHR '','' \<notin> set p"
      using split_from_single_pieces [of "CHR '',''" "[]" p s] by (simp add: js_split_def)
    moreover have "set e \<subseteq> set (takeWhile (\<lambda>x. x \<noteq> CHR '';'') p)"
      unfolding e by (rule trim_subset)
    moreover have "CHR '';'' \<notin> set (takeWhile (\<lambda>x. x \<noteq> CHR '';'') p)"
      by (auto dest: set_takeWhileD)
    moreover have "set (takeWhile (\<lambda>x. x \<noteq> CHR '';'') p) \<subseteq> set p"
      by (auto dest: set_takeWhileD)
    ultimately have "CHR '','' \<notin> set e" "CHR '';'' \<notin> set e" by blast+
    with k show ?thesis by (simp add: keep_cookie_def startsWith_def)
  qed
  from a extractCookies_Some [of s] c d header_cookies_eq [of s] show ?thesis by blast
qed


lemma sample_cookie_entries:
  "filter keep_cookie
     (map (\<lambda>c. trim (takeWhile (\<lambda>x. x \<noteq> CHR '';'') c))
        (js_split ''sid=1; Path=/, path=/x, kl=wt-wt; HttpOnly'' '','')) =
   [''sid=1'', ''kl=wt-wt'']"
  by code_simp

theorem extractCookies_case_sensitive_witness:
  "extractCookies (Some ''sid=1; Path=/, path=/x, kl=wt-wt; HttpOnly'') = Inr ''sid=1; kl=wt-wt'' \<and>
   ''sid=1'' \<noteq> [] \<and> CHR '','' \<notin> set ''sid=1'' \<and> CHR '';'' \<notin> set ''sid=1'' \<and>
   \<not> prefix ''path'' ''sid=1'' \<and> \<not> prefix ''expires'' ''sid=1'' \<and>
   \<not> prefix ''HttpOnly'' ''sid=1''"
proof -
  note T = extractCookies_case_sensitive [of "''sid=1; Path=/, path=/x, kl=wt-wt; HttpOnly''"]
  from T have "extractCookies (Some ''sid=1; Path=/, path=/x, kl=wt-wt; HttpOnly'') =
      Inr (join ''; '' (filter keep_cookie
            (map (\<lambda>c. trim (takeWhile (\<lambda>x. x \<noteq> CHR '';'') c))
               (js_split ''sid=1; Path=/, path=/x, kl=wt-wt; HttpOnly'' '',''))))"
    by blast
  then have a: "extractCookies (Some ''sid=1; Path=/, path=/x, kl=wt-wt; HttpOnly'') =
      Inr ''sid=1; kl=wt-wt''"
    unfolding sample_cookie_entries by simp
  from T have "\<forall>e \<in> set (filter keep_cookie
            (map (\<lambda>c. trim (takeWhile (\<lambda>x. x \<noteq> CHR '';'') c))
               (js_split ''sid=1; Path=/, path=/x, kl=wt-wt; HttpOnly'' '',''))).
      e \<noteq> [] \<and> CHR '','' \<notin> set e \<and> CHR '';'' \<notin> set e \<and>
      \<not> prefix ''path'' e \<and> \<not> prefix ''expires'' e \<and> \<not> prefix ''HttpOnly'' e"
    by blast
  then have "\<forall>e \<in> set [''sid=1'', ''kl=wt-wt''].
      e \<noteq> [] \<and> CHR '','' \<notin> set e \<and> CHR '';'' \<notin> set e \<and>
      \<not> prefix ''path'' e \<and> \<not> prefix ''expires'' e \<and> \<not> prefix ''HttpOnly'' e"
    unfolding sample_cookie_entries .
  then have b: "''sid=1'' \<noteq> [] \<and> CHR '','' \<notin> set ''sid=1'' \<and> CHR '';'' \<notin> set ''sid=1'' \<and>
   \<not> prefix ''path'' ''sid=1'' \<and> \<not> prefix ''expires'' ''sid=1'' \<and>
   \<not> prefix ''HttpOnly'' ''sid=1''"
    by simp
  from a b show ?thesis by blast
qed

text \<open>
  The claim as stated fails: the prefix test is case-sensitive, so an entry \<open>Path=/\<close>
  stays in the output of \<open>extractCookies\<close>; the inline extraction keeps even \<open>path=/\<close>.
\<close>

theorem extractCookies_case_counterexample:
  "extractCookies (Some ''sid=1; Secure, Path=/; HttpOnly'') = Inr ''sid=1; Path=/'' \<and>
   includes_str ''sid=1; Path=/'' ''Path='' \<and>
   header_cookies ''sid=1; Secure, path=/; HttpOnly'' = ''sid=1;  path=/'' \<and>
   includes_str ''sid=1;  path=/'' ''path=''"
  by code_simp

section \<open>Properties of the request handlers\<close>

text \<open>
  Claim C8, amended. The effective result count is 10 when the count argument is absent
  or 0, and the argument clamped to the interval from 1 to 20 otherwise; it always lies
  between 1 and 20. All three handlers compute it by the same expression (the simple
  handler writes \<open>args.count || 10\<close> without \<open>Number\<close>, which is the same for an
  integer or absent argument).
\<close>

theorem effective_count_range:
  "effective_count c =
     (case c of None \<Rightarrow> 10 | Some n \<Rightarrow> if n = 0 then 10 else max 1 (min 20 n)) \<and>
   1 \<le> effective_count c \<and> effective_count c \<le> 20"
  by (auto simp: effective_count_def split: option.split)

text \<open>
  The claim as stated fails for a count of 0: the argument is present, clamping gives 1,
  and the handlers use 10, because \<open>||\<close> takes 0 for a missing value.
\<close>

theorem effective_count_zero_counterexample:
  "effective_count (Some 0) = 10 \<and> max 1 (min 20 (0::int)) = 1"
  by (simp add: effective_count_def)

lemma enforceRateLimit_local:
  "ip' \<noteq> ip \<Longrightarrow> snd (enforceRateLimit now ip' S) ip = S ip"
  by (simp add: enforceRateLimit_def Let_def split: option.split)

lemma checkRateLimit_local:
  "ip' \<noteq> ip \<Longrightarrow> snd (checkRateLimit now ip' S) ip = S ip"
  by (simp add: checkRateLimit_def Let_def split: option.split)

lemma enforceRateLimit_own:
  "S ip = S' ip \<Longrightarrow>
   fst (enforceRateLimit now ip S) = fst (enforceRateLimit now ip S') \<and>
   snd (enforceRateLimit now ip S) ip = snd (enforceRateLimit now ip S') ip"
  by (simp add: enforceRateLimit_def Let_def split: option.split)

lemma checkRateLimit_own:
  "S ip = S' ip \<Longrightarrow>
   fst (checkRateLimit now ip S) = fst (checkRateLimit now ip S') \<and>
   snd (checkRateLimit now ip S) ip = snd (checkRateLimit now ip S') ip"
  by (simp add: checkRateLimit_def Let_def split: option.split)

lemma acquire_all_local:
  assumes step: "\<And>now ip' S. ip' \<noteq> ip \<Longrightarrow> snd (acquire now ip' S) ip = S ip"
  shows "\<forall>c \<in> set calls. snd c \<noteq> ip \<Longrightarrow> acquire_all acquire calls S ip = S ip"
proof (induction calls arbitrary: S)
  case Nil
  show ?case by simp
next
  case (Cons c calls)
  obtain t ip' where c: "c = (t, ip')" by (cases c)
  with Cons.prems have "ip' \<noteq> ip" by simp
  with Cons c step show ?case by simp
qed

text \<open>
  Claim C9, amended. In \<open>enforceRateLimit\<close> and \<open>checkRateLimit(ip)\<close> rate limiting is per
  client identity: acquire calls made for other identities, at any times, leave the
  record of an identity as it was, and the next acquire call for that identity has the
  outcome and leaves the record it would have had without them. (The limiter of the
  simple handler has no client identity.)
\<close>

theorem rate_limit_per_identity:
  "(\<forall>c \<in> set calls. snd c \<noteq> ip) \<longrightarrow>
     acquire_all enforceRateLimit calls S ip = S ip \<and>
     fst (enforceRateLimit now ip (acquire_all enforceRateLimit calls S)) =
       fst (enforceRateLimit now ip S) \<and>
     snd (enforceRateLimit now ip (acquire_all enforceRateLimit calls S)) ip =
       snd (enforceRateLimit now ip S) ip \<and>
     acquire_all checkRateLimit calls T ip = T ip \<and>
     fst (checkRateLimit now ip (acquire_all checkRateLimit calls T)) =
       fst (checkRateLimit now ip T) \<and>
     snd (checkRateLimit now ip (acquire_all checkRateLimit calls T)) ip =
       snd (checkRateLimit now ip T) ip"
proof
  assume others: "\<forall>c \<in> set calls. snd c \<noteq> ip"
  have a: "acquire_all enforceRateLimit calls S ip = S ip"
    using enforceRateLimit_local others by (rule acquire_all_local)
  have b: "acquire_all checkRateLimit calls T ip = T ip"
    using checkRateLimit_local others by (rule acquire_all_local)
  from a b
    enforceRateLimit_own [of "acquire_all enforceRateLimit calls S" ip S now]
    checkRateLimit_own [of "acquire_all checkRateLimit calls T" ip T now]
  show "acquire_all enforceRateLimit calls S ip = S ip \<and>
     fst (enforceRateLimit now ip (acquire_all enforceRateLimit calls S)) =
       fst (enforceRateLimit now ip S) \<and>
     snd (enforceRateLimit now ip (acquire_all enforceRateLimit calls S)) ip =
       snd (enforceRateLimit now ip S) ip \<and>
     acquire_all checkRateLimit calls T ip = T ip \<and>
     fst (checkRateLimit now ip (acquire_all checkRateLimit calls T)) =
       fst (checkRateLimit now ip T) \<and>
     snd (checkRateLimit now ip (acquire_all checkRateLimit calls T)) ip =
       snd (checkRateLimit now ip T) ip"
    by blast
qed

theorem rate_limit_per_identity_witness:
  "snd (1000 :: int, ''10.0.0.1'') \<noteq> ''10.0.0.2'' \<and>
   acquire_all enforceRateLimit
     [(1000, ''10.0.0.1''), (1001, ''10.0.0.1''), (1002, ''10.0.0.1''), (1003, ''10.0.0.1'')]
     Map.empty ''10.0.0.2'' = None \<and>
   fst (enforceRateLimit 1004 ''10.0.0.2''
     (acquire_all enforceRateLimit
        [(1000, ''10.0.0.1''), (1001, ''10.0.0.1''), (1002, ''10.0.0.1''), (1003, ''10.0.0.1'')]
        Map.empty)) = Inr ()"
proof -
  let ?calls = "[(1000 :: int, ''10.0.0.1''), (1001, ''10.0.0.1''), (1002, ''10.0.0.1''),
                 (1003, ''10.0.0.1'')]"
  have others: "\<forall>c \<in> set ?calls. snd c \<noteq> ''10.0.0.2''" by simp
  note T = rate_limit_per_identity [of ?calls "''10.0.0.2''" Map.empty 1004 Map.empty]
  from T others have a: "acquire_all enforceRateLimit ?calls Map.empty ''10.0.0.2'' = Map.empty ''10.0.0.2''"
    by blast
  from T others have "fst (enforceRateLimit 1004 ''10.0.0.2'' (acquire_all enforceRateLimit ?calls Map.empty)) =
       fst (enforceRateLimit 1004 ''10.0.0.2'' Map.empty)"
    by blast
  also have "\<dots> = Inr ()"
    by (simp add: enforceRateLimit_def MAX_PER_MIN_def)
  finally have b: "fst (enforceRateLimit 1004 ''10.0.0.2'' (acquire_all enforceRateLimit ?calls Map.empty)) = Inr ()" .
  from a b show ?thesis by simp
qed

text \<open>
  The claim as stated fails for the simple handler, whose limiter is one counter for the
  process: after ten requests of one client inside a minute, the first request of another
  client is rejected, which alone would have been served.
\<close>

theorem global_limiter_shared_counterexample:
  "fst (handler_simple calm_world (search_request ''10.0.0.2'') \<lparr>requestCount = 0, lastReset = 0\<rparr>) =
     \<lparr>statusCode = 200, json = ToolContent (ResultList ''rust'' [one_result]) False\<rparr> \<and>
   fst (handler_simple calm_world (search_request ''10.0.0.2'')
     (serve_simple calm_world (replicate 10 (search_request ''10.0.0.1''))
        \<lparr>requestCount = 0, lastReset = 0\<rparr>)) =
     \<lparr>statusCode = 500,
      json = ToolContent (ToolError ''Rate limit exceeded: max 10 requests per minute'') True\<rparr>"
  by code_simp

lemma handler_scraper_limited:
  assumes "http_method req = ''POST''"
    and "fst (enforceRateLimit (clock_limiter w) (client_ip ''127.0.0.1'' (forwarded_for req)) (fst st)) = Inl e"
  shows "fst (handler_scraper w req st) =
     \<lparr>statusCode = 200, json = ToolContent (SearchUnavailable (message e)) True\<rparr>"
proof -
  obtain a R where p: "enforceRateLimit (clock_limiter w) (client_ip ''127.0.0.1'' (forwarded_for req)) (fst st) = (a, R)"
    by (cases "enforceRateLimit (clock_limiter w) (client_ip ''127.0.0.1'' (forwarded_for req)) (fst st)")
  with assms(2) have "a = Inl e" by simp
  with p assms(1) show ?thesis by (simp add: handler_scraper_def Let_def)
qed

lemma handler_scraper_malformed:
  assumes "http_method req = ''POST''"
    and "fst (enforceRateLimit (clock_limiter w) (client_ip ''127.0.0.1'' (forwarded_for req)) (fst st)) = Inr ()"
    and "\<not> well_formed (body req)"
  shows "fst (handler_scraper w req st) =
     \<lparr>statusCode = 400, json = ToolContent InvalidRequestFormat True\<rparr>"
proof -
  obtain a R where p: "enforceRateLimit (clock_limiter w) (client_ip ''127.0.0.1'' (forwarded_for req)) (fst st) = (a, R)"
    by (cases "enforceRateLimit (clock_limiter w) (client_ip ''127.0.0.1'' (forwarded_for req)) (fst st)")
  with assms(2) have "a = Inr ()" by simp
  with p assms(1,3) show ?thesis
    by (auto simp: handler_scraper_def Let_def well_formed_def query_of_def split: option.splits)
qed

lemma handler_scraper_failed:
  assumes "http_method req = ''POST''"
    and "fst (enforceRateLimit (clock_limiter w) (client_ip ''127.0.0.1'' (forwarded_for req)) (fst st)) = Inr ()"
    and "well_formed (body req)"
    and "fst (humanLikeSearch w (clock_session w) (request_query req) (request_count req)
           (client_ip ''127.0.0.1'' (forwarded_for req)) (snd st)) = Inl e"
  shows "fst (handler_scraper w req st) =
     \<lparr>statusCode = 200, json = ToolContent (SearchUnavailable (message e)) True\<rparr>"
proof -
  obtain a R where p: "enforceRateLimit (clock_limiter w) (client_ip ''127.0.0.1'' (forwarded_for req)) (fst st) = (a, R)"
    by (cases "enforceRateLimit (clock_limiter w) (client_ip ''127.0.0.1'' (forwarded_for req)) (fst st)")
  with assms(2) have a: "a = Inr ()" by simp
  obtain x S' where q: "humanLikeSearch w (clock_session w) (request_query req) (request_count req)
           (client_ip ''127.0.0.1'' (forwarded_for req)) (snd st) = (x, S')"
    by (cases "humanLikeSearch w (clock_session w) (request_query req) (request_count req)
           (client_ip ''127.0.0.1'' (forwarded_for req)) (snd st)")
  with assms(4) have x: "x = Inl e" by simp
  from assms(3) obtain b where b: "body req = Some b" "name b = JStr ''duckduckgo_web_search''"
    "truthy (query_of (arguments b))" "is_string (query_of (arguments b))"
    by (auto simp: well_formed_def split: option.splits)
  from q x b have "humanLikeSearch w (clock_session w) (string_of (query_of (arguments b)))
      (effective_count (count_of (arguments b))) (client_ip ''127.0.0.1'' (forwarded_for req)) (snd st) = (Inl e, S')"
    by (simp add: request_query_def request_count_def)
  with p a b assms(1) show ?thesis
    by (simp add: handler_scraper_def Let_def)
qed

lemma handler_session_limited:
  assumes "http_method req = ''POST''"
    and "fst (checkRateLimit (clock_limiter w) (client_ip ''unknown'' (forwarded_for req)) (fst st)) = Inl e"
  shows "fst (handler_session w req st) =
     \<lparr>statusCode = 200, json = ToolContent (SearchFailed (message e)) True\<rparr>"
proof -
  obtain a R where p: "checkRateLimit (clock_limiter w) (client_ip ''unknown'' (forwarded_for req)) (fst st) = (a, R)"
    by (cases "checkRateLimit (clock_limiter w) (client_ip ''unknown'' (forwarded_for req)) (fst st)")
  with assms(2) have "a = Inl e" by simp
  with p assms(1) show ?thesis by (simp add: handler_session_def Let_def)
qed

lemma handler_session_malformed:
  assumes "http_method req = ''POST''"
    and "fst (checkRateLimit (clock_limiter w) (client_ip ''unknown'' (forwarded_for req)) (fst st)) = Inr ()"
    and "body req = Some b" and "\<not> well_formed (body req)"
  shows "statusCode (fst (handler_session w req st)) = 400 \<and> isError (fst (handler_session w req st))"
proof -
  obtain a R where p: "checkRateLimit (clock_limiter w) (client_ip ''unknown'' (forwarded_for req)) (fst st) = (a, R)"
    by (cases "checkRateLimit (clock_limiter w) (client_ip ''unknown'' (forwarded_for req)) (fst st)")
  with assms(2) have "a = Inr ()" by simp
  with p assms(1,3,4) show ?thesis
    by (auto simp: handler_session_def Let_def well_formed_def isError_def)
qed

lemma handler_session_failed:
  assumes "http_method req = ''POST''"
    and "fst (checkRateLimit (clock_limiter w) (client_ip ''unknown'' (forwarded_for req)) (fst st)) = Inr ()"
    and "well_formed (body req)"
    and "fst (performSearchWithSession w (clock_session w) (request_query req) (request_count req)
           (client_ip ''unknown'' (forwarded_for req)) (snd st)) = Inl e"
    and "proxy_fallback w (request_query req) (request_count req) e = None"
  shows "fst (handler_session w req st) =
     \<lparr>statusCode = 200, json = ToolContent (SearchFailed (message e)) True\<rparr>"
proof -
  obtain a R where p: "checkRateLimit (clock_limiter w) (client_ip ''unknown'' (forwarded_for req)) (fst st) = (a, R)"
    by (cases "checkRateLimit (clock_limiter w) (client_ip ''unknown'' (forwarded_for req)) (fst st)")
  with assms(2) have a: "a = Inr ()" by simp
  obtain x S' where q: "performSearchWithSession w (clock_session w) (request_query req) (request_count req)
           (client_ip ''unknown'' (forwarded_for req)) (snd st) = (x, S')"
    by (cases "performSearchWithSession w (clock_session w) (request_query req) (request_count req)
           (client_ip ''unknown'' (forwarded_for req)) (snd st)")
  with assms(4) have x: "x = Inl e" by simp
  from assms(3) obtain b where b: "body req = Some b" "name b = JStr ''duckduckgo_web_search''"
    "truthy (query_of (arguments b))" "is_string (query_of (arguments b))"
    by (auto simp: well_formed_def split: option.splits)
  from q x b have s: "performSearchWithSession w (clock_session w) (string_of (query_of (arguments b)))
      (effective_count (count_of (arguments b))) (client_ip ''unknown'' (forwarded_for req)) (snd st) = (Inl e, S')"
    by (simp add: request_query_def request_count_def)
  from assms(5) b have f: "proxy_fallback w (string_of (query_of (arguments b)))
      (effective_count (count_of (arguments b))) e = None"
    by (simp add: request_query_def request_count_def)
  from p a b assms(1) s f show ?thesis
    by (simp add: handler_session_def Let_def)
qed

lemma handler_simple_malformed:
  assumes "http_method req = ''POST''" and "body req = Some b" and "\<not> well_formed (body req)"
  shows "statusCode (fst (handler_simple w req g)) = 400 \<and> isError (fst (handler_simple w req g))"
  using assms by (auto simp: handler_simple_def Let_def well_formed_def isError_def)

lemma handler_simple_limited:
  assumes "http_method req = ''POST''" and "well_formed (body req)"
    and "fst (checkRateLimit_global (clock_limiter w) g) = Inl e"
  shows "fst (handler_simple w req g) =
     \<lparr>statusCode = 500, json = ToolContent (ToolError (message e)) True\<rparr>"
proof -
  obtain a g1 where p: "checkRateLimit_global (clock_limiter w) g = (a, g1)"
    by (cases "checkRateLimit_global (clock_limiter w) g")
  with assms(3) have a: "a = Inl e" by simp
  from assms(2) obtain b where b: "body req = Some b" "name b = JStr ''duckduckgo_web_search''"
    "truthy (query_of (arguments b))" "is_string (query_of (arguments b))"
    by (auto simp: well_formed_def split: option.splits)
  from p a b assms(1) show ?thesis by (simp add: handler_simple_def Let_def)
qed

lemma handler_simple_failed:
  assumes "http_method req = ''POST''" and "well_formed (body req)"
    and "fst (checkRateLimit_global (clock_limiter w) g) = Inr ()"
    and "ddg_search w (request_query req) [] = Inl e"
  shows "fst (handler_simple w req g) =
     \<lparr>statusCode = 500, json = ToolContent (ToolError (message e)) True\<rparr>"
proof -
  obtain a g1 where p: "checkRateLimit_global (clock_limiter w) g = (a, g1)"
    by (cases "checkRateLimit_global (clock_limiter w) g")
  with assms(3) have a: "a = Inr ()" by simp
  from assms(2) obtain b where b: "body req = Some b" "name b = JStr ''duckduckgo_web_search''"
    "truthy (query_of (arguments b))" "is_string (query_of (arguments b))"
    by (auto simp: well_formed_def split: option.splits)
  from assms(4) b have "ddg_search w (string_of (query_of (arguments b))) [] = Inl e"
    by (simp add: request_query_def)
  with p a b assms(1) show ?thesis by (simp add: handler_simple_def Let_def)
qed

text \<open>
  Claim C4, amended. For a POST request: in the handler of part_000 and in the session
  handler every error thrown inside the \<open>try\<close> block, the terminal search failure and
  equally a rate-limit rejection, is answered with status 200 and the error flag set and
  carries the error's message; a request that passed the rate gate and whose body names
  another tool or has a missing, empty or non-string query is answered with status 400
  and the error flag set. The simple handler answers such a body with 400 as well, and
  answers a rate-limit rejection and a search failure with status 500 and the error flag
  set.
\<close>

theorem handler_error_status:
  assumes post: "http_method req = ''POST''"
  shows
    "(fst (enforceRateLimit (clock_limiter w) (client_ip ''127.0.0.1'' (forwarded_for req)) (fst st)) = Inl e \<longrightarrow>
        fst (handler_scraper w req st) =
          \<lparr>statusCode = 200, json = ToolContent (SearchUnavailable (message e)) True\<rparr>) \<and>
     (fst (enforceRateLimit (clock_limiter w) (client_ip ''127.0.0.1'' (forwarded_for req)) (fst st)) = Inr () \<and>
      \<not> well_formed (body req) \<longrightarrow>
        fst (handler_scraper w req st) =
          \<lparr>statusCode = 400, json = ToolContent InvalidRequestFormat True\<rparr>) \<and>
     (fst (enforceRateLimit (clock_limiter w) (client_ip ''127.0.0.1'' (forwarded_for req)) (fst st)) = Inr () \<and>
      well_formed (body req) \<and>
      fst (humanLikeSearch w (clock_session w) (request_query req) (request_count req)
             (client_ip ''127.0.0.1'' (forwarded_for req)) (snd st)) = Inl e \<longrightarrow>
        fst (handler_scraper w req st) =
          \<lparr>statusCode = 200, json = ToolContent (SearchUnavailable (message e)) True\<rparr>) \<and>
     (fst (checkRateLimit (clock_limiter w) (client_ip ''unknown'' (forwarded_for req)) (fst st')) = Inl e \<longrightarrow>
        fst (handler_session w req st') =
          \<lparr>statusCode = 200, json = ToolContent (SearchFailed (message e)) True\<rparr>) \<and>
     (fst (checkRateLimit (clock_limiter w) (client_ip ''unknown'' (forwarded_for req)) (fst st')) = Inr () \<and>
      body req \<noteq> None \<and> \<not> well_formed (body req) \<longrightarrow>
        statusCode (fst (handler_session w req st')) = 400 \<and>
        isError (fst (handler_session w req st'))) \<and>
     (fst (checkRateLimit (clock_limiter w) (client_ip ''unknown'' (forwarded_for req)) (fst st')) = Inr () \<and>
      well_formed (body req) \<and>
      fst (performSearchWithSession w (clock_session w) (request_query req) (request_count req)
             (client_ip ''unknown'' (forwarded_for req)) (snd st')) = Inl e \<and>
      proxy_fallback w (request_query req) (request_count req) e = None \<longrightarrow>
        fst (handler_session w req st') =
          \<lparr>statusCode = 200, json = ToolContent (SearchFailed (message e)) True\<rparr>) \<and>
     (body req \<noteq> None \<and> \<not> well_formed (body req) \<longrightarrow>
        statusCode (fst (handler_simple w req g)) = 400 \<and> isError (fst (handler_simple w req g))) \<and>
     (well_formed (body req) \<and> fst (checkRateLimit_global (clock_limiter w) g) = Inl e \<longrightarrow>
        fst (handler_simple w req g) =
          \<lparr>statusCode = 500, json = ToolContent (ToolError (message e)) True\<rparr>) \<and>
     (well_formed (body req) \<and> fst (checkRateLimit_global (clock_limiter w) g) = Inr () \<and>
      ddg_search w (request_query req) [] = Inl e \<longrightarrow>
        fst (handler_simple w req g) =
          \<lparr>statusCode = 500, json = ToolContent (ToolError (message e)) True\<rparr>)"
  using handler_scraper_limited [OF post, of w st e]
    handler_scraper_malformed [OF post, of w st]
    handler_scraper_failed [OF post, of w st e]
    handler_session_limited [OF post, of w st' e]
    handler_session_malformed [OF post, of w st']
    handler_session_failed [OF post, of w st' e]
    handler_simple_malformed [OF post, of _ w g]
    handler_simple_limited [OF post, of w g e]
    handler_simple_failed [OF post, of w g e]
  by blast

theorem handler_error_status_witness:
  "fst (handler_scraper calm_world (search_request ''10.0.0.1'') full3) =
     \<lparr>statusCode = 200,
      json = ToolContent (SearchUnavailable ''Rate limit: 3 requests/minute/IP'') True\<rparr> \<and>
   fst (handler_scraper calm_world other_tool_request (Map.empty, Map.empty)) =
     \<lparr>statusCode = 400, json = ToolContent InvalidRequestFormat True\<rparr> \<and>
   fst (handler_scraper hostile_world (search_request ''10.0.0.1'') (Map.empty, Map.empty)) =
     \<lparr>statusCode = 200, json = ToolContent (SearchUnavailable ''HTTP 403'') True\<rparr> \<and>
   fst (handler_session calm_world (search_request ''10.0.0.1'') full5) =
     \<lparr>statusCode = 200,
      json = ToolContent (SearchFailed ''Rate limit exceeded. Try again in 1 minute.'') True\<rparr> \<and>
   statusCode (fst (handler_session calm_world other_tool_request (Map.empty, Map.empty))) = 400 \<and>
   isError (fst (handler_session calm_world other_tool_request (Map.empty, Map.empty))) \<and>
   fst (handler_session hostile_world (search_request ''10.0.0.1'') (Map.empty, Map.empty)) =
     \<lparr>statusCode = 200, json = ToolContent (SearchFailed ''DDG detected an anomaly'') True\<rparr> \<and>
   statusCode (fst (handler_simple calm_world other_tool_request idle)) = 400 \<and>
   isError (fst (handler_simple calm_world other_tool_request idle)) \<and>
   fst (handler_simple calm_world (search_request ''10.0.0.1'') full10) =
     \<lparr>statusCode = 500,
      json = ToolContent (ToolError ''Rate limit exceeded: max 10 requests per minute'') True\<rparr> \<and>
   fst (handler_simple hostile_world (search_request ''10.0.0.1'') idle) =
     \<lparr>statusCode = 500, json = ToolContent (ToolError ''DDG detected an anomaly'') True\<rparr>"
proof -
  let ?req = "search_request ''10.0.0.1''"
  let ?free = "(Map.empty, Map.empty)"
  have p1: "http_method ?req = ''POST''" by (simp add: search_request_def)
  have p2: "http_method other_tool_request = ''POST''" by (simp add: other_tool_request_def)
  have wf1: "well_formed (body ?req)" by code_simp
  have wf2: "\<not> well_formed (body other_tool_request)" by code_simp
  have b2: "body other_tool_request \<noteq> None" by (simp add: other_tool_request_def)
  have a1: "fst (enforceRateLimit (clock_limiter calm_world)
      (client_ip ''127.0.0.1'' (forwarded_for ?req)) (fst full3)) =
      Inl (Error ''Rate limit: 3 requests/minute/IP'')" by code_simp
  have a2: "fst (enforceRateLimit (clock_limiter calm_world)
      (client_ip ''127.0.0.1'' (forwarded_for other_tool_request)) (fst ?free)) = Inr ()"
    by code_simp
  have a3: "fst (enforceRateLimit (clock_limiter hostile_world)
      (client_ip ''127.0.0.1'' (forwarded_for ?req)) (fst ?free)) = Inr ()" by code_simp
  have a4: "fst (humanLikeSearch hostile_world (clock_session hostile_world) (request_query ?req)
      (request_count ?req) (client_ip ''127.0.0.1'' (forwarded_for ?req)) (snd ?free)) =
      Inl (Error ''HTTP 403'')" by code_simp
  have s1: "fst (checkRateLimit (clock_limiter calm_world)
      (client_ip ''unknown'' (forwarded_for ?req)) (fst full5)) =
      Inl (Error ''Rate limit exceeded. Try again in 1 minute.'')" by code_simp
  have s2: "fst (checkRateLimit (clock_limiter calm_world)
      (client_ip ''unknown'' (forwarded_for other_tool_request)) (fst ?free)) = Inr ()"
    by code_simp
  have s3: "fst (checkRateLimit (clock_limiter hostile_world)
      (client_ip ''unknown'' (forwarded_for ?req)) (fst ?free)) = Inr ()" by code_simp
  have s4: "fst (performSearchWithSession hostile_world (clock_session hostile_world)
      (request_query ?req) (request_count ?req) (client_ip ''unknown'' (forwarded_for ?req))
      (snd ?free)) = Inl (Error ''DDG detected an anomaly'')" by code_simp
  have s5: "proxy_fallback hostile_world (request_query ?req) (request_count ?req)
      (Error ''DDG detected an anomaly'') = None" by code_simp
  have g1: "fst (checkRateLimit_global (clock_limiter calm_world) full10) =
      Inl (Error ''Rate limit exceeded: max 10 requests per minute'')" by code_simp
  have g2: "fst (checkRateLimit_global (clock_limiter hostile_world) idle) = Inr ()"
    by code_simp
  have g3: "ddg_search hostile_world (request_query ?req) [] =
      Inl (Error ''DDG detected an anomaly'')" by code_simp
  have r1: "fst (handler_scraper calm_world ?req full3) =
     \<lparr>statusCode = 200,
      json = ToolContent (SearchUnavailable ''Rate limit: 3 requests/minute/IP'') True\<rparr>"
    using handler_error_status [OF p1, of calm_world full3
        "Error ''Rate limit: 3 requests/minute/IP''" ?free idle] a1
    by simp
  have r2: "fst (handler_scraper calm_world other_tool_request ?free) =
     \<lparr>statusCode = 400, json = ToolContent InvalidRequestFormat True\<rparr>"
    using handler_error_status [OF p2, of calm_world ?free "Error []" ?free idle] a2 wf2
    by blast
  have r3: "fst (handler_scraper hostile_world ?req ?free) =
     \<lparr>statusCode = 200, json = ToolContent (SearchUnavailable ''HTTP 403'') True\<rparr>"
    using handler_error_status [OF p1, of hostile_world ?free "Error ''HTTP 403''" ?free idle]
      a3 a4 wf1
    by simp
  have r4: "fst (handler_session calm_world ?req full5) =
     \<lparr>statusCode = 200,
      json = ToolContent (SearchFailed ''Rate limit exceeded. Try again in 1 minute.'') True\<rparr>"
    using handler_error_status [OF p1, of calm_world ?free
        "Error ''Rate limit exceeded. Try again in 1 minute.''" full5 idle] s1
    by simp
  have r5: "statusCode (fst (handler_session calm_world other_tool_request ?free)) = 400 \<and>
     isError (fst (handler_session calm_world other_tool_request ?free))"
    using handler_error_status [OF p2, of calm_world ?free "Error []" ?free idle] s2 wf2 b2
    by blast
  have r6: "fst (handler_session hostile_world ?req ?free) =
     \<lparr>statusCode = 200, json = ToolContent (SearchFailed ''DDG detected an anomaly'') True\<rparr>"
    using handler_error_status [OF p1, of hostile_world ?free
        "Error ''DDG detected an anomaly''" ?free idle] s3 s4 s5 wf1
    by simp
  have r7: "statusCode (fst (handler_simple calm_world other_tool_request idle)) = 400 \<and>
     isError (fst (handler_simple calm_world other_tool_request idle))"
    using handler_error_status [OF p2, of calm_world ?free "Error []" ?free idle] wf2 b2
    by blast
  have r8: "fst (handler_simple calm_world ?req full10) =
     \<lparr>statusCode = 500,
      json = ToolContent (ToolError ''Rate limit exceeded: max 10 requests per minute'') True\<rparr>"
    using handler_error_status [OF p1, of calm_world ?free
        "Error ''Rate limit exceeded: max 10 requests per minute''" ?free full10] g1 wf1
    by simp
  have r9: "fst (handler_simple hostile_world ?req idle) =
     \<lparr>statusCode = 500, json = ToolContent (ToolError ''DDG detected an anomaly'') True\<rparr>"
    using handler_error_status [OF p1, of hostile_world ?free
        "Error ''DDG detected an anomaly''" ?free idle] g2 g3 wf1
    by simp
  from r1 r2 r3 r4 r5 r6 r7 r8 r9 show ?thesis by blast
qed

text \<open>
  The claim as stated fails: a rate-limit rejection is answered with 200 by the handler
  of part_000 and by the session handler and with 500 by the simple handler, never 4xx;
  and the simple handler answers a search failure with 500, not 200.
\<close>

theorem rate_limited_status_counterexample:
  "statusCode (fst (handler_scraper calm_world (search_request ''10.0.0.1'') full3)) = 200 \<and>
   statusCode (fst (handler_session calm_world (search_request ''10.0.0.1'') full5)) = 200 \<and>
   statusCode (fst (handler_simple calm_world (search_request ''10.0.0.1'') full10)) = 500 \<and>
   statusCode (fst (handler_simple hostile_world (search_request ''10.0.0.1'') idle)) = 500"
  by code_simp

section \<open>Properties of the session managers and the search orchestrators\<close>


lemma reuse_or_establish_expired:
  assumes "S ip = Some s" and "now - timestamp s > 12 * 60 * 1000"
  shows "reuse_or_establish w now ip S =
       (case establishSession w of
          Inl e \<Rightarrow> (Inl e, S(ip := None))
        | Inr (c, agent) \<Rightarrow>
            (Inr (c, agent), S(ip \<mapsto> \<lparr>cookies = c, timestamp = now, userAgent = agent\<rparr>)))"
  using assms by (simp add: reuse_or_establish_def Let_def split: sum.split prod.split)

lemma reuse_or_establish_absent:
  assumes "S ip = None"
  shows "reuse_or_establish w now ip S =
       (case establishSession w of
          Inl e \<Rightarrow> (Inl e, S(ip := None))
        | Inr (c, agent) \<Rightarrow>
            (Inr (c, agent), S(ip \<mapsto> \<lparr>cookies = c, timestamp = now, userAgent = agent\<rparr>)))"
proof -
  from assms have "S(ip := None) = S" by (rule fun_upd_idem)
  with assms show ?thesis
    by (simp add: reuse_or_establish_def Let_def split: sum.split prod.split)
qed



lemma reuse_or_fetch_expired:
  assumes "T ip = Some t" and "now - timestamp t > 10 * 60 * 1000"
  shows "reuse_or_fetch w now ip T =
       (getInitialCookies w,
        if getInitialCookies w \<noteq> []
        then T(ip \<mapsto> \<lparr>cookies = getInitialCookies w, timestamp = now\<rparr>)
        else T(ip := None))"
  using assms by (simp add: reuse_or_fetch_def Let_def)

lemma reuse_or_fetch_absent:
  assumes "T ip = None"
  shows "reuse_or_fetch w now ip T =
       (getInitialCookies w,
        if getInitialCookies w \<noteq> []
        then T(ip \<mapsto> \<lparr>cookies = getInitialCookies w, timestamp = now\<rparr>)
        else T(ip := None))"
proof -
  from assms have "T(ip := None) = T" by (rule fun_upd_idem)
  with assms show ?thesis by (simp add: reuse_or_fetch_def Let_def)
qed





lemma search_with_retry_plain: "search_with_retry w query [] = ddg_search w query []"
  by (simp add: search_with_retry_def split: sum.split)

lemma getInitialCookies_failed: "home_page w = Inl e \<Longrightarrow> getInitialCookies w = []"
  by (simp add: getInitialCookies_def)

lemma establishSession_failed: "home_page w = Inl e \<Longrightarrow> establishSession w = Inl e"
  by (simp add: establishSession_def Let_def)

lemma performSearch_landing_failed:
  assumes "home_page w = Inl e"
    and "T ip = None \<or> (\<exists>t. T ip = Some t \<and> now - timestamp t > 10 * 60 * 1000)"
  shows "performSearchWithSession w now query cnt ip T = (ddg_search w query [], T(ip := None))"
proof -
  have "reuse_or_fetch w now ip T = ([], T(ip := None))"
    using assms(2)
  proof
    assume "T ip = None"
    then show ?thesis
      using reuse_or_fetch_absent [of T ip w now] getInitialCookies_failed [OF assms(1)]
      by simp
  next
    assume "\<exists>t. T ip = Some t \<and> now - timestamp t > 10 * 60 * 1000"
    then obtain t where "T ip = Some t" "now - timestamp t > 10 * 60 * 1000" by blast
    then show ?thesis
      using reuse_or_fetch_expired [of T ip t now w] getInitialCookies_failed [OF assms(1)]
      by simp
  qed
  then show ?thesis
    by (simp add: performSearchWithSession_def search_with_retry_plain)
qed

lemma humanLikeSearch_landing_failed:
  assumes "home_page w = Inl e"
    and "S ip = None \<or> (\<exists>s. S ip = Some s \<and> now - timestamp s > 12 * 60 * 1000)"
  shows "humanLikeSearch w now query cnt ip S = (Inl e, S(ip := None))"
proof -
  have "reuse_or_establish w now ip S = (Inl e, S(ip := None))"
    using assms(2)
  proof
    assume "S ip = None"
    then show ?thesis
      using reuse_or_establish_absent [of S ip w now] establishSession_failed [OF assms(1)]
      by simp
  next
    assume "\<exists>s. S ip = Some s \<and> now - timestamp s > 12 * 60 * 1000"
    then obtain s where "S ip = Some s" "now - timestamp s > 12 * 60 * 1000" by blast
    then show ?thesis
      using reuse_or_establish_expired [of S ip s now w] establishSession_failed [OF assms(1)]
      by simp
  qed
  then show ?thesis by (simp add: humanLikeSearch_def)
qed

text \<open>
  Claim C5, amended. In the session handler, for a client without a reusable session
  (none stored, or the stored one expired), a failing landing-page fetch is not raised:
  \<open>getInitialCookies\<close> yields the empty cookie string, no session is stored, and the
  search is issued without cookies; its outcome is the outcome of the call. In part_000
  \<open>establishSession\<close> has no handler for the fetch: the same failure is the outcome of
  \<open>humanLikeSearch\<close>, and no session is stored.
\<close>

theorem landing_failure_degrades:
  "(home_page w = Inl e \<and>
    (T ip = None \<or> (\<exists>t. T ip = Some t \<and> now - timestamp t > 10 * 60 * 1000)) \<longrightarrow>
      getInitialCookies w = [] \<and>
      performSearchWithSession w now query cnt ip T = (ddg_search w query [], T(ip := None))) \<and>
   (home_page w = Inl e \<and>
    (S ip = None \<or> (\<exists>s. S ip = Some s \<and> now - timestamp s > 12 * 60 * 1000)) \<longrightarrow>
      humanLikeSearch w now query cnt ip S = (Inl e, S(ip := None)))"
  using performSearch_landing_failed [of w e T ip now query cnt]
    humanLikeSearch_landing_failed [of w e S ip now query cnt]
    getInitialCookies_failed [of w e]
  by blast

theorem landing_failure_degrades_witness:
  "fst (performSearchWithSession offline_home_world 1000 ''rust'' 3 ''10.0.0.1'' Map.empty) =
     Inr (Some [one_result]) \<and>
   snd (performSearchWithSession offline_home_world 1000 ''rust'' 3 ''10.0.0.1'' Map.empty)
     ''10.0.0.1'' = None \<and>
   fst (performSearchWithSession offline_home_world 600001 ''rust'' 3 ''10.0.0.1''
          [''10.0.0.1'' \<mapsto> stale_cookie_session]) = Inr (Some [one_result]) \<and>
   fst (humanLikeSearch offline_home_world 1000 ''rust'' 3 ''10.0.0.1'' Map.empty) =
     Inl (Error ''fetch failed'')"
proof -
  let ?ip = "''10.0.0.1''"
  let ?T = "[?ip \<mapsto> stale_cookie_session]"
  have h: "home_page offline_home_world = Inl (Error ''fetch failed'')"
    by (simp add: offline_home_world_def)
  have d: "ddg_search offline_home_world ''rust'' [] = Inr (Some [one_result])"
    by (simp add: offline_home_world_def)
  have n: "Map.empty ?ip = None \<or>
      (\<exists>t. Map.empty ?ip = Some t \<and> 1000 - timestamp t > 10 * 60 * 1000)"
    by simp
  have n': "Map.empty ?ip = None \<or>
      (\<exists>s. Map.empty ?ip = Some s \<and> 1000 - timestamp s > 12 * 60 * 1000)"
    by simp
  have x: "?T ?ip = None \<or> (\<exists>t. ?T ?ip = Some t \<and> 600001 - timestamp t > 10 * 60 * 1000)"
    by (simp add: stale_cookie_session_def)
  from landing_failure_degrades [of offline_home_world "Error ''fetch failed''" Map.empty ?ip
      1000 "''rust''" 3 Map.empty] h n n'
  have a: "performSearchWithSession offline_home_world 1000 ''rust'' 3 ?ip Map.empty =
      (ddg_search offline_home_world ''rust'' [], Map.empty(?ip := None))"
    and b: "humanLikeSearch offline_home_world 1000 ''rust'' 3 ?ip Map.empty =
      (Inl (Error ''fetch failed''), Map.empty(?ip := None))"
    by blast+
  from landing_failure_degrades [of offline_home_world "Error ''fetch failed''" ?T ?ip
      600001 "''rust''" 3 Map.empty] h x
  have c: "performSearchWithSession offline_home_world 600001 ''rust'' 3 ?ip ?T =
      (ddg_search offline_home_world ''rust'' [], ?T(?ip := None))"
    by blast
  from a b c d show ?thesis by simp
qed

text \<open>
  The claim as stated fails for part_000: with the landing page unreachable and no
  stored session the fetch error is raised to the handler, which answers that the search
  is unavailable, although the search without cookies would have returned two results.
\<close>

theorem landing_failure_raised_counterexample:
  "home_page offline_home_world = Inl (Error ''fetch failed'') \<and>
   fst (humanLikeSearch offline_home_world 1000 ''rust'' 2 ''10.0.0.1'' Map.empty) =
     Inl (Error ''fetch failed'') \<and>
   fetch_results offline_home_world ''rust'' 2 [] =
     Inr [\<lparr>title = ''Rust & friends'', url = ''https://www.rust-lang.org/'',
            description = ''A language''\<rparr>,
          \<lparr>title = ''The Book'', url = ''https://doc.rust-lang.org/book/'', description = []\<rparr>] \<and>
   fst (handler_scraper offline_home_world (search_request ''10.0.0.1'') (Map.empty, Map.empty)) =
     \<lparr>statusCode = 200, json = ToolContent (SearchUnavailable ''fetch failed'') True\<rparr>"
  by code_simp

lemma performSearch_retry:
  assumes "fst (reuse_or_fetch w now ip T) \<noteq> []"
    and "ddg_search w query (fst (reuse_or_fetch w now ip T)) = Inl e"
  shows "fst (performSearchWithSession w now query cnt ip T) =
     (case ddg_search w query [] of Inr r \<Rightarrow> Inr r | Inl e2 \<Rightarrow> Inl e)"
proof -
  obtain c T' where p: "reuse_or_fetch w now ip T = (c, T')"
    by (cases "reuse_or_fetch w now ip T")
  with assms have "c \<noteq> []" "ddg_search w query c = Inl e" by simp_all
  with p show ?thesis
    by (simp add: performSearchWithSession_def search_with_retry_def)
qed

lemma handler_session_results:
  assumes "http_method req = ''POST''"
    and "fst (checkRateLimit (clock_limiter w) (client_ip ''unknown'' (forwarded_for req)) (fst st)) = Inr ()"
    and "well_formed (body req)"
    and "fst (performSearchWithSession w (clock_session w) (request_query req) (request_count req)
           (client_ip ''unknown'' (forwarded_for req)) (snd st)) = Inr (Some rs)"
    and "rs \<noteq> []"
  shows "fst (handler_session w req st) =
     \<lparr>statusCode = 200,
      json = ToolContent (ResultList (request_query req) (take (nat (request_count req)) rs)) False\<rparr>"
proof -
  obtain a R where p: "checkRateLimit (clock_limiter w) (client_ip ''unknown'' (forwarded_for req)) (fst st) = (a, R)"
    by (cases "checkRateLimit (clock_limiter w) (client_ip ''unknown'' (forwarded_for req)) (fst st)")
  with assms(2) have a: "a = Inr ()" by simp
  obtain x S' where q: "performSearchWithSession w (clock_session w) (request_query req) (request_count req)
           (client_ip ''unknown'' (forwarded_for req)) (snd st) = (x, S')"
    by (cases "performSearchWithSession w (clock_session w) (request_query req) (request_count req)
           (client_ip ''unknown'' (forwarded_for req)) (snd st)")
  with assms(4) have x: "x = Inr (Some rs)" by simp
  from assms(3) obtain b where b: "body req = Some b" "name b = JStr ''duckduckgo_web_search''"
    "truthy (query_of (arguments b))" "is_string (query_of (arguments b))"
    by (auto simp: well_formed_def split: option.splits)
  from q x b have s: "performSearchWithSession w (clock_session w) (string_of (query_of (arguments b)))
      (effective_count (count_of (arguments b))) (client_ip ''unknown'' (forwarded_for req)) (snd st) =
      (Inr (Some rs), S')"
    by (simp add: request_query_def request_count_def)
  from p a b assms(1,5) s show ?thesis
    by (simp add: handler_session_def Let_def request_query_def request_count_def)
qed

text \<open>
  Claim C7, amended. In the session handler, when the primary search fails while a
  non-empty cookie string is in use, \<open>performSearchWithSession\<close> repeats the same search
  without cookies, and what the retry returns is what the call returns; when the retry
  yields results, the handler answers with status 200, the error flag cleared and the
  first \<open>count\<close> results. (\<open>humanLikeSearch\<close> of part_000 has no retry.)
\<close>

theorem cookieless_retry_success:
  "(fst (reuse_or_fetch w now ip T) \<noteq> [] \<and>
    ddg_search w query (fst (reuse_or_fetch w now ip T)) = Inl e \<and>
    ddg_search w query [] = Inr r \<longrightarrow>
      fst (performSearchWithSession w now query cnt ip T) = Inr r) \<and>
   (http_method req = ''POST'' \<and>
    fst (checkRateLimit (clock_limiter w) (client_ip ''unknown'' (forwarded_for req)) (fst st)) = Inr () \<and>
    well_formed (body req) \<and>
    fst (reuse_or_fetch w (clock_session w) (client_ip ''unknown'' (forwarded_for req)) (snd st)) \<noteq> [] \<and>
    ddg_search w (request_query req)
      (fst (reuse_or_fetch w (clock_session w) (client_ip ''unknown'' (forwarded_for req)) (snd st))) = Inl e \<and>
    ddg_search w (request_query req) [] = Inr (Some rs) \<and> rs \<noteq> [] \<longrightarrow>
      fst (handler_session w req st) =
        \<lparr>statusCode = 200,
         json = ToolContent
           (ResultList (request_query req) (take (nat (request_count req)) rs)) False\<rparr>)"
proof -
  have a: "fst (performSearchWithSession w now query cnt ip T) = Inr r"
    if "fst (reuse_or_fetch w now ip T) \<noteq> []"
      "ddg_search w query (fst (reuse_or_fetch w now ip T)) = Inl e"
      "ddg_search w query [] = Inr r" for now query cnt ip T r
    using performSearch_retry [OF that(1,2), of cnt] that(3) by simp
  have b: "fst (handler_session w req st) =
        \<lparr>statusCode = 200,
         json = ToolContent
           (ResultList (request_query req) (take (nat (request_count req)) rs)) False\<rparr>"
    if "http_method req = ''POST''"
      "fst (checkRateLimit (clock_limiter w) (client_ip ''unknown'' (forwarded_for req)) (fst st)) = Inr ()"
      "well_formed (body req)"
      "fst (reuse_or_fetch w (clock_session w) (client_ip ''unknown'' (forwarded_for req)) (snd st)) \<noteq> []"
      "ddg_search w (request_query req)
        (fst (reuse_or_fetch w (clock_session w) (client_ip ''unknown'' (forwarded_for req)) (snd st))) = Inl e"
      "ddg_search w (request_query req) [] = Inr (Some rs)" "rs \<noteq> []"
  proof -
    have "fst (performSearchWithSession w (clock_session w) (request_query req) (request_count req)
           (client_ip ''unknown'' (forwarded_for req)) (snd st)) = Inr (Some rs)"
      using that(4,5,6) by (rule a)
    with that(1,2,3) show ?thesis using that(7) by (rule handler_session_results)
  qed
  from a [of now ip T query r cnt] b show ?thesis by blast
qed

text \<open>
  Claim C10. When the primary search, made with a non-empty cookie string, fails and
  the retry without cookies fails as well, the error of \<open>performSearchWithSession\<close> is
  the error of the primary search, not the one of the retry.
\<close>

theorem retry_failure_keeps_original_error:
  "(c \<noteq> [] \<and> ddg_search w query c = Inl e \<and> ddg_search w query [] = Inl e2 \<longrightarrow>
      search_with_retry w query c = Inl e) \<and>
   (fst (reuse_or_fetch w now ip T) \<noteq> [] \<and>
    ddg_search w query (fst (reuse_or_fetch w now ip T)) = Inl e \<and>
    ddg_search w query [] = Inl e2 \<longrightarrow>
      fst (performSearchWithSession w now query cnt ip T) = Inl e)"
proof -
  have "search_with_retry w query c = Inl e"
    if "c \<noteq> []" "ddg_search w query c = Inl e" "ddg_search w query [] = Inl e2"
    using that by (simp add: search_with_retry_def)
  moreover have "fst (performSearchWithSession w now query cnt ip T) = Inl e"
    if "fst (reuse_or_fetch w now ip T) \<noteq> []"
      "ddg_search w query (fst (reuse_or_fetch w now ip T)) = Inl e"
      "ddg_search w query [] = Inl e2"
    using performSearch_retry [OF that(1,2), of cnt] that(3) by simp
  ultimately show ?thesis by blast
qed


theorem cookieless_retry_success_witness:
  "fst (performSearchWithSession cookie_blocked_world 1000 ''rust'' 3 ''10.0.0.1''
          [''10.0.0.1'' \<mapsto> stale_cookie_session]) = Inr (Some [one_result]) \<and>
   fst (handler_session cookie_blocked_world (search_request ''10.0.0.1'')
          (Map.empty, [''10.0.0.1'' \<mapsto> stale_cookie_session])) =
     \<lparr>statusCode = 200, json = ToolContent (ResultList ''rust'' [one_result]) False\<rparr>"
proof -
  let ?w = cookie_blocked_world
  let ?ip = "''10.0.0.1''"
  let ?T = "[?ip \<mapsto> stale_cookie_session]"
  let ?req = "search_request ?ip"
  let ?st = "(Map.empty :: rate_store, ?T)"
  let ?e = "Error ''DDG detected an anomaly''"
  have c: "fst (reuse_or_fetch ?w 1000 ?ip ?T) = ''sid=old''" by code_simp
  have ip: "client_ip ''unknown'' (forwarded_for ?req) = ?ip" by code_simp
  have q: "request_query ?req = ''rust''" by code_simp
  have n: "request_count ?req = 3" by code_simp
  have clk: "clock_session ?w = 1000" by (simp add: cookie_blocked_world_def)
  have d1: "ddg_search ?w ''rust'' ''sid=old'' = Inl ?e"
    by (simp add: cookie_blocked_world_def)
  have d2: "ddg_search ?w ''rust'' [] = Inr (Some [one_result])"
    by (simp add: cookie_blocked_world_def)
  have p: "http_method ?req = ''POST''" by (simp add: search_request_def)
  have g: "fst (checkRateLimit (clock_limiter ?w) ?ip (fst ?st)) = Inr ()" by code_simp
  have wf: "well_formed (body ?req)" by code_simp
  note A = cookieless_retry_success [of ?w 1000 ?ip ?T "''rust''" ?e "Some [one_result]" 3
      ?req ?st "[one_result]"]
  have h1: "fst (reuse_or_fetch ?w 1000 ?ip ?T) \<noteq> [] \<and>
    ddg_search ?w ''rust'' (fst (reuse_or_fetch ?w 1000 ?ip ?T)) = Inl ?e \<and>
    ddg_search ?w ''rust'' [] = Inr (Some [one_result])"
    unfolding c using d1 d2 by simp
  have h2: "http_method ?req = ''POST'' \<and>
    fst (checkRateLimit (clock_limiter ?w) (client_ip ''unknown'' (forwarded_for ?req)) (fst ?st)) = Inr () \<and>
    well_formed (body ?req) \<and>
    fst (reuse_or_fetch ?w (clock_session ?w) (client_ip ''unknown'' (forwarded_for ?req)) (snd ?st)) \<noteq> [] \<and>
    ddg_search ?w (request_query ?req)
      (fst (reuse_or_fetch ?w (clock_session ?w) (client_ip ''unknown'' (forwarded_for ?req)) (snd ?st))) = Inl ?e \<and>
    ddg_search ?w (request_query ?req) [] = Inr (Some [one_result]) \<and> [one_result] \<noteq> []"
    unfolding ip q clk snd_conv c using p g wf d1 d2 by simp
  from A h1 have r1: "fst (performSearchWithSession ?w 1000 ''rust'' 3 ?ip ?T) = Inr (Some [one_result])"
    by blast
  from A h2 have "fst (handler_session ?w ?req ?st) =
        \<lparr>statusCode = 200,
         json = ToolContent
           (ResultList (request_query ?req) (take (nat (request_count ?req)) [one_result])) False\<rparr>"
    by blast
  then have r2: "fst (handler_session ?w ?req ?st) =
     \<lparr>statusCode = 200, json = ToolContent (ResultList ''rust'' [one_result]) False\<rparr>"
    unfolding q n by simp
  from r1 r2 show ?thesis by blast
qed

text \<open>
  The claim as stated fails for part_000: the primary search with the session's cookies
  is blocked, the same search without cookies would return two results, and
  \<open>humanLikeSearch\<close> fails at once; the handler answers that the search is unavailable.
\<close>

theorem no_retry_in_scraper_counterexample:
  "fst (reuse_or_establish cookie_blocked_world 1000 ''10.0.0.1''
          [''10.0.0.1'' \<mapsto> stale_agent_session]) = Inr (''sid=old'', ''Mozilla/5.0'') \<and>
   fetch_results cookie_blocked_world ''rust'' 2 ''sid=old'' =
     Inl (Error ''Blocked by anti-bot system'') \<and>
   fetch_results cookie_blocked_world ''rust'' 2 [] =
     Inr [\<lparr>title = ''Rust & friends'', url = ''https://www.rust-lang.org/'',
            description = ''A language''\<rparr>,
          \<lparr>title = ''The Book'', url = ''https://doc.rust-lang.org/book/'', description = []\<rparr>] \<and>
   fst (humanLikeSearch cookie_blocked_world 1000 ''rust'' 2 ''10.0.0.1''
          [''10.0.0.1'' \<mapsto> stale_agent_session]) = Inl (Error ''Blocked by anti-bot system'') \<and>
   fst (handler_scraper cookie_blocked_world (search_request ''10.0.0.1'')
          (Map.empty, [''10.0.0.1'' \<mapsto> stale_agent_session])) =
     \<lparr>statusCode = 200,
      json = ToolContent (SearchUnavailable ''Blocked by anti-bot system'') True\<rparr>"
  by code_simp

theorem retry_failure_keeps_original_error_witness:
  "search_with_retry failing_world ''rust'' ''sid=old'' = Inl (Error ''primary failed'') \<and>
   fst (performSearchWithSession failing_world 1000 ''rust'' 3 ''10.0.0.1''
          [''10.0.0.1'' \<mapsto> stale_cookie_session]) = Inl (Error ''primary failed'')"
proof -
  let ?w = failing_world
  let ?ip = "''10.0.0.1''"
  let ?T = "[?ip \<mapsto> stale_cookie_session]"
  have c: "fst (reuse_or_fetch ?w 1000 ?ip ?T) = ''sid=old''" by code_simp
  have d1: "ddg_search ?w ''rust'' ''sid=old'' = Inl (Error ''primary failed'')"
    by (simp add: failing_world_def)
  have d2: "ddg_search ?w ''rust'' [] = Inl (Error ''retry failed'')"
    by (simp add: failing_world_def)
  have h1: "''sid=old'' \<noteq> [] \<and> ddg_search ?w ''rust'' ''sid=old'' = Inl (Error ''primary failed'') \<and>
      ddg_search ?w ''rust'' [] = Inl (Error ''retry failed'')"
    using d1 d2 by simp
  have h2: "fst (reuse_or_fetch ?w 1000 ?ip ?T) \<noteq> [] \<and>
    ddg_search ?w ''rust'' (fst (reuse_or_fetch ?w 1000 ?ip ?T)) = Inl (Error ''primary failed'') \<and>
    ddg_search ?w ''rust'' [] = Inl (Error ''retry failed'')"
    unfolding c using d1 d2 by simp
  from retry_failure_keeps_original_error [of "''sid=old''" ?w "''rust''"
      "Error ''primary failed''" "Error ''retry failed''" 1000 ?ip ?T 3] h1 h2
  show ?thesis by blast
qed

end
